theory Spec2Isabelle
  imports Complex_Main "HOL-Library.Sublist" "HOL-Library.AList"
begin

section \<open>Python values\<close>

text \<open>
  The server receives and produces JSON. \<open>request.get_json()\<close> and \<open>json.loads\<close> hand the
  program Python values: \<open>None\<close>, \<open>bool\<close>, \<open>int\<close>, \<open>str\<close>, \<open>list\<close> and \<open>dict\<close>
  (with \<open>str\<close> keys). A \<open>str\<close> is represented by its UTF-8 bytes; a \<open>dict\<close> by the list of
  its items in insertion order, the keys of a dict being distinct. JSON numbers with a
  fraction or an exponent (Python \<open>float\<close>) are outside the model.
\<close>

datatype json = JNull | JBool bool | JInt int | JStr string
  | JList "json list" | JObj "(string \<times> json) list"

text \<open>
  Every \<open>raise\<close> of the source is a value. Each constructor carries \<open>str(e)\<close>, the text
  the handlers put into their responses. \<open>BackendFailure\<close> stands for whatever
  \<open>urllib.request.urlopen\<close>, \<open>response.read().decode\<close> and \<open>json.loads\<close> raise: an
  unreachable host, a timeout, an HTTP error status, a body that is not JSON.
\<close>

datatype py_error = AttributeError string | TypeError string | KeyError string
  | Exception string | BackendFailure string

fun str_of_error :: "py_error \<Rightarrow> string" where
  "str_of_error (AttributeError m) = m"
| "str_of_error (TypeError m) = m"
| "str_of_error (KeyError m) = m"
| "str_of_error (Exception m) = m"
| "str_of_error (BackendFailure m) = m"

text \<open>Python truthiness: what \<open>not x\<close>, \<open>if x\<close> and \<open>all([...])\<close> test.\<close>

fun truthy :: "json \<Rightarrow> bool" where
  "truthy JNull = False"
| "truthy (JBool b) = b"
| "truthy (JInt i) = (i \<noteq> 0)"
| "truthy (JStr s) = (s \<noteq> [])"
| "truthy (JList xs) = (xs \<noteq> [])"
| "truthy (JObj kvs) = (kvs \<noteq> [])"

text \<open>
  Python's \<open>==\<close> on these values. \<open>bool\<close> is a subclass of \<open>int\<close>, so \<open>True == 1\<close>
  and \<open>False == 0\<close>; two dicts are equal when they have the same keys with equal values,
  in any order; values of different types are otherwise unequal.
\<close>

fun py_eq :: "json \<Rightarrow> json \<Rightarrow> bool" where
  "py_eq JNull JNull = True"
| "py_eq (JBool a) (JBool b) = (a = b)"
| "py_eq (JBool a) (JInt j) = ((if a then 1 else 0) = j)"
| "py_eq (JInt i) (JBool b) = (i = (if b then 1 else 0))"
| "py_eq (JInt i) (JInt j) = (i = j)"
| "py_eq (JStr s) (JStr t) = (s = t)"
| "py_eq (JList xs) (JList ys) = list_all2 py_eq xs ys"
| "py_eq (JObj kvs) (JObj kws) =
     (set (map fst kvs) = set (map fst kws) \<and>
      list_all (\<lambda>(k, v). case map_of kws k of None \<Rightarrow> False | Some w \<Rightarrow> py_eq v w) kvs)"
| "py_eq _ _ = False"

fun type_name :: "json \<Rightarrow> string" where
  "type_name JNull = ''NoneType''"
| "type_name (JBool _) = ''bool''"
| "type_name (JInt _) = ''int''"
| "type_name (JStr _) = ''str''"
| "type_name (JList _) = ''list''"
| "type_name (JObj _) = ''dict''"

definition no_attribute :: "json \<Rightarrow> string \<Rightarrow> py_error" where
  "no_attribute v a =
     AttributeError ([CHR 0x27] @ type_name v @ [CHR 0x27] @ '' object has no attribute ''
                     @ [CHR 0x27] @ a @ [CHR 0x27])"

text \<open>\<open>d.get(k, default)\<close> and \<open>d.get(k)\<close> on a dict.\<close>

definition dict_get_default :: "(string \<times> json) list \<Rightarrow> string \<Rightarrow> json \<Rightarrow> json" where
  "dict_get_default d k dflt = (case map_of d k of None \<Rightarrow> dflt | Some v \<Rightarrow> v)"

definition dict_get :: "(string \<times> json) list \<Rightarrow> string \<Rightarrow> json" where
  "dict_get d k = dict_get_default d k JNull"


section \<open>String operations of the standard library\<close>

text \<open>
  \<open>s.replace(old, new)\<close>: every non-overlapping occurrence of \<open>old\<close>, found from the left,
  becomes \<open>new\<close>; an empty \<open>old\<close> matches before every character and at the end.
\<close>

fun replace :: "string \<Rightarrow> string \<Rightarrow> string \<Rightarrow> string" where
  "replace old new [] = (if old = [] then new else [])"
| "replace old new (c # cs) =
     (if old = [] then new @ c # replace old new cs
      else if prefix old (c # cs) then new @ replace old new (drop (length old) (c # cs))
      else c # replace old new cs)"

text \<open>\<open>s.lstrip(chars)\<close> and \<open>s.startswith(p)\<close>.\<close>

definition lstrip :: "string \<Rightarrow> string \<Rightarrow> string" where
  "lstrip chars s = dropWhile (\<lambda>c. c \<in> set chars) s"

definition startswith :: "string \<Rightarrow> string \<Rightarrow> bool" where
  "startswith s p = prefix p s"


text \<open>
  \<open>urllib.parse.quote(s)\<close> with its default \<open>safe='/'\<close>: the string is encoded as UTF-8;
  letters, digits, \<open>_.-~\<close> and \<open>/\<close> stay, every other byte becomes \<open>%XX\<close> in upper-case
  hexadecimal.
\<close>

definition always_safe :: string where
  "always_safe = ''ABCDEFGHIJKLMNOPQRSTUVWXYZabcdefghijklmnopqrstuvwxyz0123456789_.-~''"

definition hex_digits :: string where
  "hex_digits = ''0123456789ABCDEF''"

definition quote_byte :: "char \<Rightarrow> string" where
  "quote_byte c =
     (if c \<in> set (always_safe @ ''/'') then [c]
      else [CHR ''%'', hex_digits ! ((of_char c :: nat) div 16), hex_digits ! ((of_char c :: nat) mod 16)])"

definition quote :: "string \<Rightarrow> string" where
  "quote s = concat (map quote_byte s)"



section \<open>Configuration and the backend\<close>

text \<open>
  The module constants are read from the environment at start-up, each with a default;
  they are a parameter of every function that uses them.
\<close>

record config =
  APPWRITE_PROJECT_ID :: string
  APPWRITE_DATABASE_ID :: string
  APPWRITE_API_KEY :: string
  CUSTOMERS_COLLECTION_ID :: string
  APPWRITE_ENDPOINT :: string

text \<open>
  A \<open>urllib.request.Request\<close> together with the \<open>timeout\<close> given to \<open>urlopen\<close>. None of
  the requests modelled here has a body.
\<close>

record http_request =
  req_method :: string
  req_url :: string
  req_headers :: "(string \<times> string) list"
  req_timeout :: nat

record http_response =
  status :: int
  body :: json

text \<open>
  The remote database is outside the program. It answers a request with a response whose
  body has been parsed, or the call raises. Its answer may depend on every request the
  server has sent before, so the backend is a function of that history, and each function
  that calls it takes the history and returns it extended by the requests it handed to
  \<open>urlopen\<close>, a request whose call raised included: the returned history tells which
  requests were sent, and in which order.
\<close>

type_synonym backend = "http_request list \<Rightarrow> http_request \<Rightarrow> py_error + http_response"

definition appwrite_headers :: "config \<Rightarrow> (string \<times> string) list" where
  "appwrite_headers cfg =
     [(''X-Appwrite-Project'', APPWRITE_PROJECT_ID cfg),
      (''X-Appwrite-Key'', APPWRITE_API_KEY cfg),
      (''Content-Type'', ''application/json'')]"

section \<open>Customer lookup\<close>

text \<open>The list \<open>phone_variants\<close> of \<open>lookup_customer_by_phone\<close>.\<close>

definition phone_variants :: "string \<Rightarrow> string list" where
  "phone_variants phone_number =
     [phone_number,
      replace ''+254'' ''0'' phone_number,
      replace ''+254'' ''254'' phone_number,
      replace ''+254'' '''' phone_number,
      (if \<not> startswith phone_number ''+'' then ''+254'' @ lstrip ''0'' phone_number
       else phone_number)]"

text \<open>The request the loop body builds for one variant.\<close>

definition customer_request :: "config \<Rightarrow> string \<Rightarrow> http_request" where
  "customer_request cfg variant =
     (let query = ''equal('' @ [CHR 0x22] @ ''phone_number'' @ [CHR 0x22] @ '',''
                  @ [CHR 0x22] @ variant @ [CHR 0x22] @ '')'';
          url = APPWRITE_ENDPOINT cfg @ ''/databases/'' @ APPWRITE_DATABASE_ID cfg
                @ ''/collections/'' @ CUSTOMERS_COLLECTION_ID cfg
                @ ''/documents?queries[]='' @ quote query
      in \<lparr>req_method = ''GET'', req_url = url, req_headers = appwrite_headers cfg,
          req_timeout = 5\<rparr>)"

text \<open>
  The dict that \<open>lookup_customer_by_phone\<close> returns. The key \<open>customer_data\<close> is present
  only in the dict returned for a match.
\<close>

record lookup_result =
  found :: bool
  valid_pin :: bool
  is_registered :: bool
  active :: bool
  customer_data :: "json option"

definition found_result :: "(string \<times> json) list \<Rightarrow> json \<Rightarrow> lookup_result" where
  "found_result customer pin =
     (let pin_match = py_eq (dict_get customer ''pin'') pin;
          is_registered = py_eq (dict_get customer ''is_registered'') (JBool True);
          active = py_eq (dict_get customer ''active'') (JBool True)
      in \<lparr>found = True, valid_pin = pin_match, is_registered = is_registered, active = active,
          customer_data = Some (JObj
            [(''phone_number'', dict_get customer ''phone_number''),
             (''account_id'', dict_get customer ''account_id''),
             (''full_name'', dict_get customer ''full_name''),
             (''active'', dict_get customer ''active''),
             (''credits'', dict_get_default customer ''credits'' (JInt 0))])\<rparr>)"

definition not_found_result :: lookup_result where
  "not_found_result =
     \<lparr>found = False, valid_pin = False, is_registered = False, active = False,
      customer_data = None\<rparr>"

text \<open>
  The test \<open>data.get('documents') and len(data['documents']) > 0\<close> and, when it holds,
  \<open>customer = data['documents'][0]\<close> with the first \<open>customer.get\<close>: \<open>Inr None\<close> when the
  test fails, \<open>Inr (Some customer)\<close> for a dict at the head of a list, and the exception
  Python raises for every other shape of the response.
\<close>

definition first_document :: "json \<Rightarrow> py_error + (string \<times> json) list option" where
  "first_document data =
     (case data of
        JObj kvs \<Rightarrow>
          (let documents = dict_get kvs ''documents'' in
           if \<not> truthy documents then Inr None
           else (case documents of
                   JList ds \<Rightarrow>
                     (case hd ds of
                        JObj customer \<Rightarrow> Inr (Some customer)
                      | d \<Rightarrow> Inl (no_attribute d ''get''))
                 | JStr s \<Rightarrow> Inl (no_attribute (JStr s) ''get'')
                 | JObj _ \<Rightarrow> Inl (KeyError ''0'')
                 | d \<Rightarrow> Inl (TypeError (''object of type '' @ [CHR 0x27] @ type_name d
                                         @ [CHR 0x27] @ '' has no len()''))))
      | d \<Rightarrow> Inl (no_attribute d ''get''))"

text \<open>The \<open>for variant in phone_variants\<close> loop.\<close>

fun lookup_loop ::
  "config \<Rightarrow> backend \<Rightarrow> json \<Rightarrow> string list \<Rightarrow> http_request list
   \<Rightarrow> (py_error + lookup_result) \<times> http_request list" where
  "lookup_loop cfg be pin [] sent = (Inr not_found_result, sent)"
| "lookup_loop cfg be pin (variant # variants) sent =
     (let request_obj = customer_request cfg variant in
      case be sent request_obj of
        Inl e \<Rightarrow> (Inl e, sent @ [request_obj])
      | Inr response \<Rightarrow>
          (case first_document (body response) of
             Inl e \<Rightarrow> (Inl e, sent @ [request_obj])
           | Inr (Some customer) \<Rightarrow> (Inr (found_result customer pin), sent @ [request_obj])
           | Inr None \<Rightarrow> lookup_loop cfg be pin variants (sent @ [request_obj])))"

text \<open>
  \<open>lookup_customer_by_phone\<close>. Its \<open>except\<close> clause logs and re-raises. A phone number
  that is not a \<open>str\<close> has no \<open>replace\<close>.
\<close>

definition lookup_customer_by_phone ::
  "config \<Rightarrow> backend \<Rightarrow> json \<Rightarrow> json \<Rightarrow> http_request list
   \<Rightarrow> (py_error + lookup_result) \<times> http_request list" where
  "lookup_customer_by_phone cfg be phone_number pin sent =
     (case phone_number of
        JStr s \<Rightarrow> lookup_loop cfg be pin (phone_variants s) sent
      | v \<Rightarrow> (Inl (no_attribute v ''replace''), sent))"

section \<open>The dispense-verification endpoint\<close>

text \<open>
  The body of the inner \<open>try\<close> after the lookup has returned: the \<open>if\<close>/\<open>elif\<close> chain over
  the lookup's dict, giving \<open>approved\<close>, \<open>reason\<close> and \<open>user_data\<close> (\<open>JNull\<close> is Python's
  \<open>None\<close>). \<open>user_lookup['customer_data']\<close> raises \<open>KeyError\<close> on a dict without that key.
\<close>

definition decision :: "lookup_result \<Rightarrow> py_error + (bool \<times> string \<times> json)" where
  "decision user_lookup =
     (if found user_lookup then
        (if \<not> is_registered user_lookup then Inr (False, ''Customer not fully registered'', JNull)
         else if \<not> active user_lookup then Inr (False, ''Subscription inactive'', JNull)
         else if \<not> valid_pin user_lookup then Inr (False, ''Invalid PIN'', JNull)
         else (case customer_data user_lookup of
                 Some user_data \<Rightarrow> Inr (True, ''Customer verified in database'', user_data)
               | None \<Rightarrow> Inl (KeyError ([CHR 0x27] @ ''customer_data'' @ [CHR 0x27]))))
      else Inr (False, ''Customer not found in database'', JNull))"

text \<open>
  The \<open>except Exception\<close> clause of the inner \<open>try\<close>. \<open>random_draw\<close> is the value of
  \<open>random.random()\<close>, a double in \<open>[0, 1)\<close>, read as the real number it denotes. The
  double nearest to \<open>0.9\<close> lies above \<open>9/10\<close> and no double lies between the two, so the
  floating-point test \<open>random.random() < 0.9\<close> holds exactly when the drawn number is
  below \<open>9/10\<close>.
\<close>

definition fallback :: "real \<Rightarrow> bool \<times> string \<times> json" where
  "fallback random_draw =
     (let approved = (random_draw < 9 / 10) in
      (approved,
       if approved then ''Database unavailable - approved by fallback (90% chance)''
       else ''Database unavailable - denied by fallback (10% chance)'',
       JNull))"

text \<open>
  \<open>dispense_verification\<close>: the parsed request body \<open>data\<close>, the random draw and the clock
  reading \<open>now\<close> (\<open>datetime.now().isoformat()\<close>) are inputs; the result is the JSON body
  given to \<open>jsonify\<close>, the HTTP status, and the requests sent to the backend. The outer
  \<open>except\<close> answers 500; the only statement under it that can raise outside the inner
  \<open>try\<close> is \<open>data.get\<close>, on a body that is not a dict.
\<close>

definition dispense_verification ::
  "config \<Rightarrow> backend \<Rightarrow> real \<Rightarrow> string \<Rightarrow> json \<Rightarrow> http_request list
   \<Rightarrow> (json \<times> int) \<times> http_request list" where
  "dispense_verification cfg be random_draw now data sent =
     (if \<not> truthy data then ((JObj [(''error'', JStr ''No JSON data provided'')], 400), sent)
      else
        (case data of
           JObj d \<Rightarrow>
             (let kiosk_id = dict_get d ''kiosk_id'';
                  phone_number = dict_get d ''user_id'';
                  pin = dict_get d ''pin'';
                  volume_ml = dict_get d ''volume_ml''
              in if \<not> list_all truthy [kiosk_id, phone_number, pin] then
                   ((JObj [(''error'', JStr ''Missing required fields: kiosk_id, user_id (phone_number), pin''),
                           (''approved'', JBool False),
                           (''reason'', JStr ''Invalid request format'')], 400), sent)
                 else
                   (case lookup_customer_by_phone cfg be phone_number pin sent of
                      (user_lookup, sent') \<Rightarrow>
                        (let (approved, reason, user_data) =
                               (case user_lookup of
                                  Inl error \<Rightarrow> fallback random_draw
                                | Inr l \<Rightarrow>
                                    (case decision l of
                                       Inl error \<Rightarrow> fallback random_draw
                                     | Inr r \<Rightarrow> r));
                             response =
                               [(''type'', JStr ''dispense_response''),
                                (''user_id'', phone_number),
                                (''pin'', pin),
                                (''volume_ml'', volume_ml),
                                (''approved'', JBool approved),
                                (''reason'', JStr reason),
                                (''timestamp'', JStr now),
                                (''kiosk_id'', kiosk_id)];
                             response = (if truthy user_data
                                         then AList.update ''user_data'' user_data response
                                         else response);
                             response = (if truthy user_data
                                         then AList.update ''user_data'' user_data response
                                         else response)
                         in ((JObj response, 200), sent'))))
         | v \<Rightarrow>
             ((JObj [(''error'', JStr (str_of_error (no_attribute v ''get''))),
                     (''type'', JStr ''server_error''),
                     (''approved'', JBool False),
                     (''reason'', JStr ''Server error occurred''),
                     (''timestamp'', JStr now)], 500), sent)))"

section \<open>The database-query endpoint\<close>






section \<open>Vocabulary of the properties and example inputs\<close>

text \<open>
  The definitions below are not part of the program. \<open>customer_requests\<close> lists the
  requests a lookup can send for a phone number, \<open>answer\<close> is what the backend answers to
  the \<open>j\<close>-th of them once the earlier ones have been sent, and \<open>returns_no_documents\<close>
  and \<open>returns_document\<close> are the two kinds of answer the loop tells apart: a dict without
  (truthy) \<open>documents\<close>, and a dict whose \<open>documents\<close> is a list headed by the dict
  \<open>customer\<close>. \<open>envelope\<close> and \<open>redacted\<close> abbreviate the response dict of the dispense
  endpoint and the customer data attached to it. The remaining definitions are concrete
  inputs on which the theorems are exercised: a configuration, customer records,
  requests, and three backends (one that times out, one that holds no customer, one that
  holds one customer under one phone number).
\<close>

definition customer_requests :: "config \<Rightarrow> string \<Rightarrow> http_request list" where
  "customer_requests cfg phone_number = map (customer_request cfg) (phone_variants phone_number)"

definition answer :: "backend \<Rightarrow> http_request list \<Rightarrow> http_request list \<Rightarrow> nat \<Rightarrow> py_error + http_response" where
  "answer be sent reqs j = be (sent @ take j reqs) (reqs ! j)"

definition returns_no_documents :: "py_error + http_response \<Rightarrow> bool" where
  "returns_no_documents a =
     (case a of
        Inr response \<Rightarrow>
          (case body response of JObj kvs \<Rightarrow> \<not> truthy (dict_get kvs ''documents'') | _ \<Rightarrow> False)
      | Inl _ \<Rightarrow> False)"

definition returns_document :: "(string \<times> json) list \<Rightarrow> py_error + http_response \<Rightarrow> bool" where
  "returns_document customer a =
     (case a of
        Inr response \<Rightarrow>
          (case body response of
             JObj kvs \<Rightarrow>
               (case dict_get kvs ''documents'' of
                  JList (JObj c # _) \<Rightarrow> c = customer
                | _ \<Rightarrow> False)
           | _ \<Rightarrow> False)
      | Inl _ \<Rightarrow> False)"

definition example_config :: config where
  "example_config =
     \<lparr>APPWRITE_PROJECT_ID = ''689107c288885e90c039'',
      APPWRITE_DATABASE_ID = ''6864aed388d20c69a461'',
      APPWRITE_API_KEY = ''secret'',
      CUSTOMERS_COLLECTION_ID = ''customers'',
      APPWRITE_ENDPOINT = ''http://192.168.1.126/v1''\<rparr>"

definition example_customer :: "(string \<times> json) list" where
  "example_customer =
     [(''phone_number'', JStr ''+254712345678''), (''pin'', JStr ''4455''),
      (''is_registered'', JBool True), (''active'', JBool True),
      (''account_id'', JStr ''ACC-1''), (''full_name'', JStr ''Jane Doe''),
      (''credits'', JInt 20)]"

definition example_request :: "(string \<times> json) list" where
  "example_request =
     [(''kiosk_id'', JStr ''K1''), (''user_id'', JStr ''+254712345678''),
      (''pin'', JStr ''4455''), (''volume_ml'', JInt 500)]"

definition failing_backend :: backend where
  "failing_backend sent request = Inl (BackendFailure ''<urlopen error timed out>'')"

definition no_documents_response :: http_response where
  "no_documents_response = \<lparr>status = 200, body = JObj [(''total'', JInt 0), (''documents'', JList [])]\<rparr>"

definition empty_backend :: backend where
  "empty_backend sent request = Inr no_documents_response"

definition store_backend :: "config \<Rightarrow> string \<Rightarrow> (string \<times> json) list \<Rightarrow> backend" where
  "store_backend cfg phone customer sent request =
     (if request = customer_request cfg phone
      then Inr \<lparr>status = 200, body = JObj [(''total'', JInt 1), (''documents'', JList [JObj customer])]\<rparr>
      else Inr no_documents_response)"

definition lapsed_customer :: "(string \<times> json) list" where
  "lapsed_customer =
     [(''phone_number'', JStr ''+254712345678''), (''pin'', JStr ''4455''),
      (''is_registered'', JBool True), (''active'', JBool False),
      (''account_id'', JStr ''ACC-2''), (''full_name'', JStr ''John Doe''),
      (''credits'', JInt 0)]"

definition unregistered_customer :: "(string \<times> json) list" where
  "unregistered_customer =
     [(''phone_number'', JStr ''+254712345678''), (''pin'', JStr ''4455''),
      (''is_registered'', JBool False), (''active'', JBool True)]"

definition wrong_pin_request :: "(string \<times> json) list" where
  "wrong_pin_request =
     [(''kiosk_id'', JStr ''K1''), (''user_id'', JStr ''+254712345678''),
      (''pin'', JStr ''0000''), (''volume_ml'', JInt 500)]"

definition envelope :: "(string \<times> json) list \<Rightarrow> string \<Rightarrow> bool \<Rightarrow> string \<Rightarrow> json \<Rightarrow> (string \<times> json) list" where
  "envelope d now approved reason user_data =
     [(''type'', JStr ''dispense_response''),
      (''user_id'', dict_get d ''user_id''),
      (''pin'', dict_get d ''pin''),
      (''volume_ml'', dict_get d ''volume_ml''),
      (''approved'', JBool approved),
      (''reason'', JStr reason),
      (''timestamp'', JStr now),
      (''kiosk_id'', dict_get d ''kiosk_id'')]
     @ (if truthy user_data then [(''user_data'', user_data)] else [])"

definition redacted :: "(string \<times> json) list \<Rightarrow> (string \<times> json) list" where
  "redacted customer =
     [(''phone_number'', dict_get customer ''phone_number''),
      (''account_id'', dict_get customer ''account_id''),
      (''full_name'', dict_get customer ''full_name''),
      (''active'', dict_get customer ''active''),
      (''credits'', dict_get_default customer ''credits'' (JInt 0))]"

definition example_response :: "(string \<times> json) list" where
  "example_response =
     [(''type'', JStr ''dispense_response''),
      (''user_id'', JStr ''+254712345678''),
      (''pin'', JStr ''4455''),
      (''volume_ml'', JInt 500),
      (''approved'', JBool True),
      (''reason'', JStr ''Customer verified in database''),
      (''timestamp'', JStr ''2025-01-01T00:00:00''),
      (''kiosk_id'', JStr ''K1''),
      (''user_data'', JObj [(''phone_number'', JStr ''+254712345678''),
                            (''account_id'', JStr ''ACC-1''),
                            (''full_name'', JStr ''Jane Doe''),
                            (''active'', JBool True),
                            (''credits'', JInt 20)])]"




section \<open>Lemmas\<close>

subsection \<open>The lookup loop\<close>

lemma first_document_none:
  "returns_no_documents a \<longleftrightarrow> (\<exists>response. a = Inr response \<and> first_document (body response) = Inr None)"
  by (auto simp: returns_no_documents_def first_document_def Let_def no_attribute_def
      split: sum.splits json.splits list.splits if_splits)

lemma first_document_some:
  "returns_document c a \<longleftrightarrow> (\<exists>response. a = Inr response \<and> first_document (body response) = Inr (Some c))"
  by (auto simp: returns_document_def first_document_def Let_def no_attribute_def
      split: sum.splits json.splits list.splits if_splits)

lemma loop_not_found:
  "(\<forall>j<length vs. returns_no_documents (answer be sent (map (customer_request cfg) vs) j))
   \<Longrightarrow> lookup_loop cfg be pin vs sent = (Inr not_found_result, sent @ map (customer_request cfg) vs)"
proof (induction vs arbitrary: sent)
  case Nil
  then show ?case by simp
next
  case (Cons v vs)
  from Cons.prems have h0: "returns_no_documents (be sent (customer_request cfg v))"
    by (auto simp: answer_def dest: spec[of _ 0])
  have hs: "\<forall>j<length vs. returns_no_documents
              (answer be (sent @ [customer_request cfg v]) (map (customer_request cfg) vs) j)"
  proof (intro allI impI)
    fix j assume "j < length vs"
    with Cons.prems have "returns_no_documents
        (answer be sent (map (customer_request cfg) (v # vs)) (Suc j))" by auto
    then show "returns_no_documents
        (answer be (sent @ [customer_request cfg v]) (map (customer_request cfg) vs) j)"
      by (simp add: answer_def)
  qed
  from h0 obtain response where r: "be sent (customer_request cfg v) = Inr response"
      "first_document (body response) = Inr None"
    by (auto simp: first_document_none)
  show ?case using Cons.IH[OF hs] r by simp
qed

lemma loop_found:
  "i < length vs \<Longrightarrow>
   (\<forall>j<i. returns_no_documents (answer be sent (map (customer_request cfg) vs) j)) \<Longrightarrow>
   returns_document c (answer be sent (map (customer_request cfg) vs) i) \<Longrightarrow>
   lookup_loop cfg be pin vs sent
     = (Inr (found_result c pin), sent @ take (Suc i) (map (customer_request cfg) vs))"
proof (induction vs arbitrary: sent i)
  case Nil
  then show ?case by simp
next
  case (Cons v vs)
  show ?case
  proof (cases i)
    case 0
    with Cons.prems(3) obtain response where "be sent (customer_request cfg v) = Inr response"
      "first_document (body response) = Inr (Some c)"
      by (auto simp: first_document_some answer_def)
    then show ?thesis using 0 by simp
  next
    case (Suc k)
    from Cons.prems(2) Suc have "returns_no_documents (be sent (customer_request cfg v))"
      by (auto simp: answer_def dest: spec[of _ 0])
    then obtain response where r: "be sent (customer_request cfg v) = Inr response"
      "first_document (body response) = Inr None"
      by (auto simp: first_document_none)
    have k: "k < length vs" using Cons.prems(1) Suc by simp
    have hs: "\<forall>j<k. returns_no_documents
              (answer be (sent @ [customer_request cfg v]) (map (customer_request cfg) vs) j)"
    proof (intro allI impI)
      fix j assume "j < k"
      with Cons.prems(2) Suc have "returns_no_documents
        (answer be sent (map (customer_request cfg) (v # vs)) (Suc j))" by auto
      then show "returns_no_documents
        (answer be (sent @ [customer_request cfg v]) (map (customer_request cfg) vs) j)"
        by (simp add: answer_def)
    qed
    have hc: "returns_document c
        (answer be (sent @ [customer_request cfg v]) (map (customer_request cfg) vs) k)"
      using Cons.prems(3) Suc by (simp add: answer_def)
    show ?thesis using Cons.IH[OF k hs hc] r Suc by simp
  qed
qed

lemma loop_not_found_only:
  "lookup_loop cfg be pin vs sent = (Inr r, sent') \<Longrightarrow> \<not> found r \<Longrightarrow>
   (\<forall>j<length vs. returns_no_documents (answer be sent (map (customer_request cfg) vs) j))"
proof (induction vs arbitrary: sent)
  case Nil
  then show ?case by simp
next
  case (Cons v vs)
  from Cons.prems obtain response where r: "be sent (customer_request cfg v) = Inr response"
      "first_document (body response) = Inr None"
      "lookup_loop cfg be pin vs (sent @ [customer_request cfg v]) = (Inr r, sent')"
    by (auto simp: Let_def found_result_def split: sum.splits option.splits)
  from Cons.IH[OF r(3) Cons.prems(2)]
  have ih: "\<forall>j<length vs. returns_no_documents
      (answer be (sent @ [customer_request cfg v]) (map (customer_request cfg) vs) j)" .
  show ?case
  proof (intro allI impI)
    fix j assume j: "j < length (v # vs)"
    show "returns_no_documents (answer be sent (map (customer_request cfg) (v # vs)) j)"
    proof (cases j)
      case 0
      then show ?thesis using r by (auto simp: answer_def first_document_none)
    next
      case (Suc k)
      with j ih have "returns_no_documents
        (answer be (sent @ [customer_request cfg v]) (map (customer_request cfg) vs) k)" by simp
      then show ?thesis using Suc by (simp add: answer_def)
    qed
  qed
qed

lemma loop_sent:
  "\<exists>n\<le>length vs. snd (lookup_loop cfg be pin vs sent) = sent @ take n (map (customer_request cfg) vs)"
proof (induction vs arbitrary: sent)
  case Nil
  then show ?case by simp
next
  case (Cons v vs)
  from Cons.IH[of "sent @ [customer_request cfg v]"] obtain n where
    n: "n \<le> length vs" "snd (lookup_loop cfg be pin vs (sent @ [customer_request cfg v]))
        = (sent @ [customer_request cfg v]) @ take n (map (customer_request cfg) vs)" by blast
  have one: "sent @ [customer_request cfg v] = sent @ take (Suc 0) (map (customer_request cfg) (v # vs))"
    by simp
  have more: "(sent @ [customer_request cfg v]) @ take n (map (customer_request cfg) vs)
     = sent @ take (Suc n) (map (customer_request cfg) (v # vs))" by simp
  show ?case
  proof (cases "be sent (customer_request cfg v)")
    case (Inl e)
    then have "snd (lookup_loop cfg be pin (v # vs) sent) = sent @ take (Suc 0) (map (customer_request cfg) (v # vs))"
      by simp
    then show ?thesis by (intro exI[of _ "Suc 0"]) simp
  next
    case (Inr response)
    show ?thesis
    proof (cases "first_document (body response)")
      case (Inl e)
      with Inr have "snd (lookup_loop cfg be pin (v # vs) sent) = sent @ take (Suc 0) (map (customer_request cfg) (v # vs))"
        by simp
      then show ?thesis by (intro exI[of _ "Suc 0"]) simp
    next
      case (Inr found)
      show ?thesis
      proof (cases found)
        case None
        with Inr \<open>be sent (customer_request cfg v) = Inr response\<close>
        have "snd (lookup_loop cfg be pin (v # vs) sent) = sent @ take (Suc n) (map (customer_request cfg) (v # vs))"
          using n(2) by simp
        then show ?thesis using n(1) by (intro exI[of _ "Suc n"]) simp
      next
        case (Some c)
        with Inr \<open>be sent (customer_request cfg v) = Inr response\<close>
        have "snd (lookup_loop cfg be pin (v # vs) sent) = sent @ take (Suc 0) (map (customer_request cfg) (v # vs))"
          by simp
        then show ?thesis by (intro exI[of _ "Suc 0"]) simp
      qed
    qed
  qed
qed

lemma loop_result:
  "lookup_loop cfg be pin vs sent = (Inr r, sent') \<Longrightarrow>
   r = not_found_result \<or> (\<exists>customer. r = found_result customer pin)"
proof (induction vs arbitrary: sent)
  case Nil
  then show ?case by simp
next
  case (Cons v vs)
  then show ?case
    by (auto simp: Let_def split: sum.splits option.splits)
qed

subsection \<open>Dicts, Python equality and the dispense endpoint\<close>

lemma dict_get_Nil [simp]: "dict_get [] k = JNull"
  by (simp add: dict_get_def dict_get_default_def)

lemma py_eq_string: "py_eq (JStr s) v = (v = JStr s)"
  by (cases v) auto

lemma py_eq_true: "py_eq v (JBool True) = (v \<in> {JBool True, JInt 1})"
  by (cases v) auto

lemma py_eq_flag: "py_eq (JBool b) (JBool True) = b"
  by simp

lemma valid_nonempty:
  "list_all truthy [dict_get d ''kiosk_id'', dict_get d ''user_id'', dict_get d ''pin''] \<Longrightarrow> d \<noteq> []"
  by auto

lemma lookup_result_shape:
  assumes "lookup_customer_by_phone cfg be phone pin sent = (Inr r, sent')"
  shows "r = not_found_result \<or> (\<exists>customer. r = found_result customer pin)"
proof (cases phone)
  case (JStr s)
  with assms show ?thesis by (auto simp: lookup_customer_by_phone_def dest: loop_result)
qed (use assms in \<open>auto simp: lookup_customer_by_phone_def\<close>)

lemma decision_not_found: "decision not_found_result = Inr (False, ''Customer not found in database'', JNull)"
  by (simp add: decision_def not_found_result_def)

lemma decision_found:
  "decision (found_result customer pin) =
     Inr (if \<not> py_eq (dict_get customer ''is_registered'') (JBool True)
            then (False, ''Customer not fully registered'', JNull)
          else if \<not> py_eq (dict_get customer ''active'') (JBool True)
            then (False, ''Subscription inactive'', JNull)
          else if \<not> py_eq (dict_get customer ''pin'') pin
            then (False, ''Invalid PIN'', JNull)
          else (True, ''Customer verified in database'',
                JObj [(''phone_number'', dict_get customer ''phone_number''),
                      (''account_id'', dict_get customer ''account_id''),
                      (''full_name'', dict_get customer ''full_name''),
                      (''active'', dict_get customer ''active''),
                      (''credits'', dict_get_default customer ''credits'' (JInt 0))]))"
  by (simp add: decision_def found_result_def Let_def)

lemma dispense_valid:
  assumes "list_all truthy [dict_get d ''kiosk_id'', dict_get d ''user_id'', dict_get d ''pin'']"
  shows "dispense_verification cfg be random_draw now (JObj d) sent =
     (case lookup_customer_by_phone cfg be (dict_get d ''user_id'') (dict_get d ''pin'') sent of
        (user_lookup, sent') \<Rightarrow>
          (case (case user_lookup of
                   Inl error \<Rightarrow> fallback random_draw
                 | Inr l \<Rightarrow> (case decision l of Inl error \<Rightarrow> fallback random_draw | Inr r \<Rightarrow> r)) of
             (approved, reason, user_data) \<Rightarrow>
               ((JObj ([(''type'', JStr ''dispense_response''),
                        (''user_id'', dict_get d ''user_id''),
                        (''pin'', dict_get d ''pin''),
                        (''volume_ml'', dict_get d ''volume_ml''),
                        (''approved'', JBool approved),
                        (''reason'', JStr reason),
                        (''timestamp'', JStr now),
                        (''kiosk_id'', dict_get d ''kiosk_id'')]
                       @ (if truthy user_data then [(''user_data'', user_data)] else [])), 200),
                sent')))"
proof -
  from assms have "d \<noteq> []" by auto
  then show ?thesis using assms
    by (simp add: dispense_verification_def Let_def split: prod.splits)
qed

lemma dict_get_Cons: "dict_get ((k, v) # d) k' = (if k = k' then v else dict_get d k')"
  by (simp add: dict_get_def dict_get_default_def)

subsection \<open>The example request\<close>

lemma example_valid:
  "list_all truthy [dict_get example_request ''kiosk_id'', dict_get example_request ''user_id'',
                    dict_get example_request ''pin'']"
  by (simp add: example_request_def dict_get_Cons)

lemma example_lookup:
  "lookup_customer_by_phone example_config
     (store_backend example_config ''+254712345678'' example_customer)
     (dict_get example_request ''user_id'') (dict_get example_request ''pin'') []
   = (Inr (found_result example_customer (JStr ''4455'')),
      [customer_request example_config ''+254712345678''])"
  by (simp add: example_request_def dict_get_Cons lookup_customer_by_phone_def phone_variants_def
      store_backend_def first_document_def Let_def)

lemma store_lookup:
  "lookup_customer_by_phone cfg (store_backend cfg phone customer) (JStr phone) pin sent
   = (Inr (found_result customer pin), sent @ [customer_request cfg phone])"
  by (simp add: lookup_customer_by_phone_def phone_variants_def store_backend_def
      first_document_def dict_get_Cons Let_def)

lemma example_request_fields:
  "dict_get example_request ''kiosk_id'' = JStr ''K1''"
  "dict_get example_request ''user_id'' = JStr ''+254712345678''"
  "dict_get example_request ''pin'' = JStr ''4455''"
  "dict_get example_request ''volume_ml'' = JInt 500"
  by (simp_all add: example_request_def dict_get_Cons)

lemma wrong_pin_request_fields:
  "dict_get wrong_pin_request ''kiosk_id'' = JStr ''K1''"
  "dict_get wrong_pin_request ''user_id'' = JStr ''+254712345678''"
  "dict_get wrong_pin_request ''pin'' = JStr ''0000''"
  by (simp_all add: wrong_pin_request_def dict_get_Cons)

lemma customer_flags:
  "dict_get example_customer ''is_registered'' = JBool True"
  "dict_get example_customer ''active'' = JBool True"
  "dict_get example_customer ''pin'' = JStr ''4455''"
  "dict_get lapsed_customer ''is_registered'' = JBool True"
  "dict_get lapsed_customer ''active'' = JBool False"
  "dict_get lapsed_customer ''pin'' = JStr ''4455''"
  "dict_get unregistered_customer ''is_registered'' = JBool False"
  "dict_get unregistered_customer ''active'' = JBool True"
  "dict_get unregistered_customer ''pin'' = JStr ''4455''"
  by (simp_all add: example_customer_def lapsed_customer_def unregistered_customer_def
      dict_get_Cons)

lemma failing_lookup:
  "lookup_customer_by_phone example_config failing_backend
     (dict_get example_request ''user_id'') (dict_get example_request ''pin'') []
   = (Inl (BackendFailure ''<urlopen error timed out>''),
      [customer_request example_config ''+254712345678''])"
  by (simp add: example_request_def dict_get_Cons lookup_customer_by_phone_def phone_variants_def
      failing_backend_def)

subsection \<open>Rejected requests\<close>

lemma dispense_rejects:
  assumes "d \<noteq> []"
    and "\<not> list_all truthy [dict_get d ''kiosk_id'', dict_get d ''user_id'', dict_get d ''pin'']"
  shows "dispense_verification cfg be random_draw now (JObj d) sent =
     ((JObj [(''error'', JStr ''Missing required fields: kiosk_id, user_id (phone_number), pin''),
             (''approved'', JBool False),
             (''reason'', JStr ''Invalid request format'')], 400), sent)"
  using assms by (simp add: dispense_verification_def Let_def)

lemma dict_get_missing: "map_of d k = None \<Longrightarrow> dict_get d k = JNull"
  by (simp add: dict_get_def dict_get_default_def)

lemma dict_get_present: "map_of d k = Some v \<Longrightarrow> dict_get d k = v"
  by (simp add: dict_get_def dict_get_default_def)

lemma falsy_values: "\<not> truthy (JStr '''')" "\<not> truthy (JInt 0)" "\<not> truthy (JBool False)" "\<not> truthy JNull"
  by simp_all

subsection \<open>The response of an accepted request\<close>

lemma dispense_outcome:
  assumes "list_all truthy [dict_get d ''kiosk_id'', dict_get d ''user_id'', dict_get d ''pin'']"
  shows "\<exists>approved reason user_data sent'.
     dispense_verification cfg be random_draw now (JObj d) sent
       = ((JObj (envelope d now approved reason user_data), 200), sent') \<and>
     ((\<exists>e. lookup_customer_by_phone cfg be (dict_get d ''user_id'') (dict_get d ''pin'') sent
             = (Inl e, sent')
           \<and> (approved, reason, user_data) = fallback random_draw)
      \<or> (lookup_customer_by_phone cfg be (dict_get d ''user_id'') (dict_get d ''pin'') sent
             = (Inr not_found_result, sent')
           \<and> (approved, reason, user_data) = (False, ''Customer not found in database'', JNull))
      \<or> (\<exists>customer.
            lookup_customer_by_phone cfg be (dict_get d ''user_id'') (dict_get d ''pin'') sent
             = (Inr (found_result customer (dict_get d ''pin'')), sent')
           \<and> decision (found_result customer (dict_get d ''pin''))
               = Inr (approved, reason, user_data)))"
proof -
  obtain looked sent' where
    l: "lookup_customer_by_phone cfg be (dict_get d ''user_id'') (dict_get d ''pin'') sent
          = (looked, sent')"
    by (cases "lookup_customer_by_phone cfg be (dict_get d ''user_id'') (dict_get d ''pin'') sent")
  show ?thesis
  proof (cases looked)
    case (Inl e)
    obtain a r u where f: "fallback random_draw = (a, r, u)" by (cases "fallback random_draw")
    have "dispense_verification cfg be random_draw now (JObj d) sent
       = ((JObj (envelope d now a r u), 200), sent')"
      using l Inl f by (simp add: dispense_valid[OF assms] envelope_def)
    with l Inl f show ?thesis by auto
  next
    case (Inr res)
    with l lookup_result_shape[of cfg be _ _ sent res sent']
    consider "res = not_found_result" | customer where "res = found_result customer (dict_get d ''pin'')"
      by blast
    then show ?thesis
    proof cases
      case 1
      have "dispense_verification cfg be random_draw now (JObj d) sent
         = ((JObj (envelope d now False ''Customer not found in database'' JNull), 200), sent')"
        using l Inr 1 by (simp add: dispense_valid[OF assms] envelope_def decision_not_found)
      with l Inr 1 show ?thesis by blast
    next
      case 2
      obtain a r u where
        dec: "decision (found_result customer (dict_get d ''pin'')) = Inr (a, r, u)"
        by (cases "decision (found_result customer (dict_get d ''pin''))")
           (auto simp: decision_found split: if_splits)
      have "dispense_verification cfg be random_draw now (JObj d) sent
         = ((JObj (envelope d now a r u), 200), sent')"
        using l Inr 2 dec by (simp add: dispense_valid[OF assms] envelope_def)
      with l Inr 2 dec show ?thesis by blast
    qed
  qed
qed

lemma decision_found_cases:
  assumes "decision (found_result customer pin) = Inr (approved, reason, user_data)"
  shows "(approved \<and> reason = ''Customer verified in database'' \<and> user_data = JObj (redacted customer))
       \<or> (\<not> approved \<and> reason \<noteq> ''Customer verified in database'' \<and> user_data = JNull)"
  using assms by (auto simp: decision_found redacted_def split: if_splits)

lemma fallback_cases:
  assumes "fallback random_draw = (approved, reason, user_data)"
  shows "user_data = JNull \<and> reason \<noteq> ''Customer verified in database'' \<and>
     (approved \<longrightarrow> reason = ''Database unavailable - approved by fallback (90% chance)'')"
  using assms by (auto simp: fallback_def Let_def split: if_splits)

lemma envelope_fields:
  "map_of (envelope d now approved reason user_data) ''type'' = Some (JStr ''dispense_response'')"
  "map_of (envelope d now approved reason user_data) ''kiosk_id'' = Some (dict_get d ''kiosk_id'')"
  "map_of (envelope d now approved reason user_data) ''user_id'' = Some (dict_get d ''user_id'')"
  "map_of (envelope d now approved reason user_data) ''pin'' = Some (dict_get d ''pin'')"
  "map_of (envelope d now approved reason user_data) ''volume_ml'' = Some (dict_get d ''volume_ml'')"
  "map_of (envelope d now approved reason user_data) ''approved'' = Some (JBool approved)"
  "map_of (envelope d now approved reason user_data) ''reason'' = Some (JStr reason)"
  "map_of (envelope d now approved reason user_data) ''timestamp'' = Some (JStr now)"
  "map_of (envelope d now approved reason user_data) ''user_data''
     = (if truthy user_data then Some user_data else None)"
  by (simp_all add: envelope_def)

lemma example_run:
  "dispense_verification example_config
     (store_backend example_config ''+254712345678'' example_customer)
     (1 / 2) ''2025-01-01T00:00:00'' (JObj example_request) []
   = ((JObj example_response, 200), [customer_request example_config ''+254712345678''])"
proof -
  have g: "dict_get example_request ''kiosk_id'' = JStr ''K1''"
    "dict_get example_request ''user_id'' = JStr ''+254712345678''"
    "dict_get example_request ''pin'' = JStr ''4455''"
    "dict_get example_request ''volume_ml'' = JInt 500"
    by (simp_all add: example_request_def dict_get_Cons)
  have c: "py_eq (dict_get example_customer ''is_registered'') (JBool True)"
    "py_eq (dict_get example_customer ''active'') (JBool True)"
    "py_eq (dict_get example_customer ''pin'') (JStr ''4455'')"
    "dict_get example_customer ''phone_number'' = JStr ''+254712345678''"
    "dict_get example_customer ''account_id'' = JStr ''ACC-1''"
    "dict_get example_customer ''full_name'' = JStr ''Jane Doe''"
    "dict_get example_customer ''active'' = JBool True"
    "dict_get_default example_customer ''credits'' (JInt 0) = JInt 20"
    by (simp_all add: example_customer_def dict_get_Cons dict_get_default_def)
  have dec: "decision (found_result example_customer (JStr ''4455'')) =
     Inr (True, ''Customer verified in database'',
          JObj [(''phone_number'', JStr ''+254712345678''),
                (''account_id'', JStr ''ACC-1''),
                (''full_name'', JStr ''Jane Doe''),
                (''active'', JBool True),
                (''credits'', JInt 20)])"
    by (simp add: decision_found c)
  show ?thesis
    using example_lookup
    by (simp add: dispense_valid[OF example_valid] g dec example_response_def)
qed

subsection \<open>Phone-number variants\<close>

lemma replace_prefix:
  "old \<noteq> [] \<Longrightarrow> replace old new (old @ s) = new @ replace old new s"
  by (cases old) simp_all

lemma replace_absent: "\<not> sublist old s \<Longrightarrow> replace old new s = s"
proof (induction s)
  case Nil
  then show ?case by auto
next
  case (Cons c cs)
  from Cons.prems have "old \<noteq> []" by auto
  moreover from Cons.prems have "\<not> prefix old (c # cs)"
    using prefix_imp_sublist by blast
  moreover from Cons.prems have "\<not> sublist old cs"
    by (simp add: sublist_Cons_right)
  ultimately show ?case using Cons.IH by simp
qed

lemma replace_first:
  assumes "old \<noteq> []" and "\<not> sublist old (u @ butlast old)"
  shows "replace old new (u @ old @ v) = u @ new @ replace old new v"
  using assms(2)
proof (induction u)
  case Nil
  show ?case using replace_prefix[OF assms(1)] by simp
next
  case (Cons c u)
  have whole: "old = butlast old @ [last old]" using assms(1) by simp
  have "\<not> prefix old (c # u @ old @ v)"
  proof
    assume p: "prefix old (c # u @ old @ v)"
    have "prefix ((c # u) @ butlast old) ((c # u) @ butlast old @ [last old] @ v)"
      by simp
    then have q: "prefix ((c # u) @ butlast old) (c # u @ old @ v)"
      using whole by (metis append_Cons append_assoc)
    have "length old \<le> length ((c # u) @ butlast old)" using assms(1) by (cases old) auto
    from prefix_length_prefix[OF p q this] have "prefix old ((c # u) @ butlast old)" .
    then show False using Cons.prems prefix_imp_sublist by blast
  qed
  moreover from Cons.prems have "\<not> sublist old (u @ butlast old)"
    by (simp add: sublist_Cons_right)
  ultimately show ?case using Cons.IH assms(1) by simp
qed

lemma phone_variants_international:
  "\<not> sublist ''+254'' rest \<Longrightarrow>
   phone_variants (''+254'' @ rest)
     = [''+254'' @ rest, ''0'' @ rest, ''254'' @ rest, rest, ''+254'' @ rest]"
  using replace_prefix[of "''+254''" _ rest]
  by (simp add: phone_variants_def startswith_def replace_absent del: replace.simps)

lemma phone_variants_example_international:
  "phone_variants ''+254712345678''
     = [''+254712345678'', ''0712345678'', ''254712345678'', ''712345678'', ''+254712345678'']"
  by (simp add: phone_variants_def startswith_def lstrip_def)

lemma phone_variants_example_local:
  "phone_variants ''0712345678''
     = [''0712345678'', ''0712345678'', ''0712345678'', ''0712345678'', ''+254712345678'']"
  by (simp add: phone_variants_def startswith_def lstrip_def)

lemma loop_first:
  "\<exists>rest. snd (lookup_loop cfg be pin (v # vs) sent) = sent @ customer_request cfg v # rest"
proof -
  from loop_sent[of vs cfg be pin "sent @ [customer_request cfg v]"]
  obtain n where "snd (lookup_loop cfg be pin vs (sent @ [customer_request cfg v]))
     = sent @ customer_request cfg v # take n (map (customer_request cfg) vs)" by auto
  then show ?thesis
    by (auto simp: Let_def split: sum.splits option.splits)
qed

lemma loop_unmatched_sent:
  assumes "lookup_loop cfg be pin vs sent = (Inr not_found_result, sent')"
  shows "sent' = sent @ map (customer_request cfg) vs"
proof -
  have "\<not> found not_found_result" by (simp add: not_found_result_def)
  from loop_not_found_only[OF assms this] loop_not_found[of vs be sent cfg pin] assms
  show ?thesis by simp
qed

lemma empty_lookup:
  "lookup_customer_by_phone cfg empty_backend (JStr p) pin sent
     = (Inr not_found_result, sent @ map (customer_request cfg) (phone_variants p))"
proof -
  have "\<forall>j<length (phone_variants p). returns_no_documents
     (answer empty_backend sent (map (customer_request cfg) (phone_variants p)) j)"
    by (simp add: answer_def empty_backend_def returns_no_documents_def no_documents_response_def
        dict_get_Cons)
  from loop_not_found[OF this] show ?thesis by (simp add: lookup_customer_by_phone_def)
qed

lemma no_code_local: "\<not> sublist ''+254'' ''0712345678''"
  by (simp add: sublist_Cons_right)

lemma no_code_foreign: "\<not> sublist ''+254'' ''+255712345678''"
  by (simp add: sublist_Cons_right)

lemma customer_requests_length: "length (customer_requests cfg p) = 5"
  by (simp add: customer_requests_def phone_variants_def)

lemma lookup_loop_eq:
  "lookup_customer_by_phone cfg be (JStr p) pin sent
     = lookup_loop cfg be pin (phone_variants p) sent"
  by (simp add: lookup_customer_by_phone_def)

lemma example_requests_differ:
  "customer_request example_config ''0712345678'' \<noteq> customer_request example_config ''+254712345678''"
  by (simp add: customer_request_def example_config_def quote_def quote_byte_def always_safe_def
      hex_digits_def Let_def)

lemma example_local_requests:
  "customer_requests example_config ''0712345678''
     = [customer_request example_config ''0712345678'',
        customer_request example_config ''0712345678'',
        customer_request example_config ''0712345678'',
        customer_request example_config ''0712345678'',
        customer_request example_config ''+254712345678'']"
  by (simp add: customer_requests_def phone_variants_example_local)

lemma example_local_answers:
  "returns_no_documents (answer (store_backend example_config ''+254712345678'' lapsed_customer) []
      (customer_requests example_config ''0712345678'') 0)"
  "returns_no_documents (answer (store_backend example_config ''+254712345678'' lapsed_customer) []
      (customer_requests example_config ''0712345678'') 1)"
  "returns_no_documents (answer (store_backend example_config ''+254712345678'' lapsed_customer) []
      (customer_requests example_config ''0712345678'') 2)"
  "returns_no_documents (answer (store_backend example_config ''+254712345678'' lapsed_customer) []
      (customer_requests example_config ''0712345678'') 3)"
  "returns_document lapsed_customer
     (answer (store_backend example_config ''+254712345678'' lapsed_customer) []
      (customer_requests example_config ''0712345678'') 4)"
  by (simp_all add: example_local_requests answer_def store_backend_def example_requests_differ
      returns_no_documents_def returns_document_def no_documents_response_def dict_get_Cons)

lemma lapsed_customer_fields:
  "dict_get lapsed_customer ''phone_number'' = JStr ''+254712345678''"
  "dict_get lapsed_customer ''account_id'' = JStr ''ACC-2''"
  "dict_get lapsed_customer ''full_name'' = JStr ''John Doe''"
  "dict_get_default lapsed_customer ''credits'' (JInt 0) = JInt 0"
  by (simp_all add: lapsed_customer_def dict_get_Cons dict_get_default_def)

subsection \<open>The query endpoint\<close>





section \<open>Properties of the specification\<close>

text \<open>
  \<^bold>\<open>C1.\<close> Take a dispense request that passes the required-field check and whose lookup
  returns without raising, either with the not-found dict or with the dict built from a
  matched record \<open>customer\<close>. The request is answered with status 200 and the verdict
  follows the chain in its order. Without a record the request is denied with reason
  \<open>Customer not found in database\<close>. With a record: \<open>is_registered\<close> not true denies with
  \<open>Customer not fully registered\<close>, whatever the PIN; else \<open>active\<close> not true denies with
  \<open>Subscription inactive\<close>; else a stored \<open>pin\<close> unequal to the claimed one denies with
  \<open>Invalid PIN\<close>; else the request is approved with \<open>Customer verified in database\<close>.
  A flag is true when the record holds \<open>True\<close> (or \<open>1\<close>, which Python's \<open>==\<close> identifies
  with \<open>True\<close>). The PINs are compared with Python's \<open>==\<close>; for a stored string, the type
  the data model gives the PIN, that is equality with the claimed value.
\<close>

theorem decision_order:
  assumes "list_all truthy [dict_get d ''kiosk_id'', dict_get d ''user_id'', dict_get d ''pin'']"
    and "lookup_customer_by_phone cfg be (dict_get d ''user_id'') (dict_get d ''pin'') sent
           = (Inr (case matched of
                     None \<Rightarrow> not_found_result
                   | Some customer \<Rightarrow> found_result customer (dict_get d ''pin'')), sent')"
  shows "\<exists>response.
     dispense_verification cfg be random_draw now (JObj d) sent = ((JObj response, 200), sent') \<and>
     (dict_get response ''approved'', dict_get response ''reason'') =
       (case matched of
          None \<Rightarrow> (JBool False, JStr ''Customer not found in database'')
        | Some customer \<Rightarrow>
            if dict_get customer ''is_registered'' \<notin> {JBool True, JInt 1}
              then (JBool False, JStr ''Customer not fully registered'')
            else if dict_get customer ''active'' \<notin> {JBool True, JInt 1}
              then (JBool False, JStr ''Subscription inactive'')
            else if \<not> py_eq (dict_get customer ''pin'') (dict_get d ''pin'')
              then (JBool False, JStr ''Invalid PIN'')
            else (JBool True, JStr ''Customer verified in database'')) \<and>
     (\<forall>customer stored. matched = Some customer \<and> dict_get customer ''pin'' = JStr stored
        \<longrightarrow> py_eq (dict_get customer ''pin'') (dict_get d ''pin'')
              = (dict_get d ''pin'' = JStr stored))"
proof -
  have strings: "\<forall>customer stored. matched = Some customer \<and> dict_get customer ''pin'' = JStr stored
        \<longrightarrow> py_eq (dict_get customer ''pin'') (dict_get d ''pin'')
              = (dict_get d ''pin'' = JStr stored)"
    by (simp add: py_eq_string)
  show ?thesis
  proof (cases matched)
    case None
    let ?response = "[(''type'', JStr ''dispense_response''),
                      (''user_id'', dict_get d ''user_id''),
                      (''pin'', dict_get d ''pin''),
                      (''volume_ml'', dict_get d ''volume_ml''),
                      (''approved'', JBool False),
                      (''reason'', JStr ''Customer not found in database''),
                      (''timestamp'', JStr now),
                      (''kiosk_id'', dict_get d ''kiosk_id'')]"
    have run: "dispense_verification cfg be random_draw now (JObj d) sent
                 = ((JObj ?response, 200), sent')"
      using assms(2) None by (simp add: dispense_valid[OF assms(1)] decision_not_found)
    have get: "(dict_get ?response ''approved'', dict_get ?response ''reason'')
                 = (JBool False, JStr ''Customer not found in database'')"
      by (simp add: dict_get_Cons)
    show ?thesis
      apply (rule exI[of _ ?response])
      apply (rule conjI[OF run])
      apply (rule conjI[OF _ strings])
      apply (simp only: get None option.case)
      done
  next
    case (Some customer)
    obtain approved reason user_data where
      dec: "decision (found_result customer (dict_get d ''pin'')) = Inr (approved, reason, user_data)"
      by (cases "decision (found_result customer (dict_get d ''pin''))")
         (auto simp: decision_found split: if_splits)
    have verdict: "(JBool approved, JStr reason) =
              (if dict_get customer ''is_registered'' \<notin> {JBool True, JInt 1}
                 then (JBool False, JStr ''Customer not fully registered'')
               else if dict_get customer ''active'' \<notin> {JBool True, JInt 1}
                 then (JBool False, JStr ''Subscription inactive'')
               else if \<not> py_eq (dict_get customer ''pin'') (dict_get d ''pin'')
                 then (JBool False, JStr ''Invalid PIN'')
               else (JBool True, JStr ''Customer verified in database''))"
      using dec unfolding decision_found py_eq_true by (auto split: if_splits)
    let ?response = "[(''type'', JStr ''dispense_response''),
                        (''user_id'', dict_get d ''user_id''),
                        (''pin'', dict_get d ''pin''),
                        (''volume_ml'', dict_get d ''volume_ml''),
                        (''approved'', JBool approved),
                        (''reason'', JStr reason),
                        (''timestamp'', JStr now),
                        (''kiosk_id'', dict_get d ''kiosk_id'')]
                       @ (if truthy user_data then [(''user_data'', user_data)] else [])"
    have run: "dispense_verification cfg be random_draw now (JObj d) sent
                 = ((JObj ?response, 200), sent')"
      using assms(2) Some dec by (simp add: dispense_valid[OF assms(1)])
    have get: "(dict_get ?response ''approved'', dict_get ?response ''reason'')
                 = (JBool approved, JStr reason)"
      by (simp add: dict_get_Cons)
    show ?thesis
      apply (rule exI[of _ ?response])
      apply (rule conjI[OF run])
      apply (rule conjI[OF _ strings])
      apply (simp only: get verdict Some option.case)
      done
  qed
qed

text \<open>
  Five requests against a backend that holds one customer under the number the kiosk
  sends: an unregistered customer with the right PIN is denied as not fully registered;
  a registered customer with an inactive subscription and the right PIN is denied as
  inactive; a registered, active customer is denied with a wrong PIN and approved with
  the right one; and a backend without customers gives not found.
\<close>

theorem decision_order_witness:
  "list_all truthy [dict_get example_request ''kiosk_id'', dict_get example_request ''user_id'',
                    dict_get example_request ''pin'']
   \<and> list_all truthy [dict_get wrong_pin_request ''kiosk_id'',
                      dict_get wrong_pin_request ''user_id'', dict_get wrong_pin_request ''pin'']
   \<and> lookup_customer_by_phone example_config
        (store_backend example_config ''+254712345678'' unregistered_customer)
        (dict_get example_request ''user_id'') (dict_get example_request ''pin'') []
      = (Inr (found_result unregistered_customer (dict_get example_request ''pin'')),
         [customer_request example_config ''+254712345678''])
   \<and> (\<exists>response.
        dispense_verification example_config
          (store_backend example_config ''+254712345678'' unregistered_customer)
          (1 / 2) ''2025-01-01T00:00:00'' (JObj example_request) []
        = ((JObj response, 200), [customer_request example_config ''+254712345678'']) \<and>
        dict_get response ''approved'' = JBool False \<and>
        dict_get response ''reason'' = JStr ''Customer not fully registered'')
   \<and> lookup_customer_by_phone example_config
        (store_backend example_config ''+254712345678'' lapsed_customer)
        (dict_get example_request ''user_id'') (dict_get example_request ''pin'') []
      = (Inr (found_result lapsed_customer (dict_get example_request ''pin'')),
         [customer_request example_config ''+254712345678''])
   \<and> (\<exists>response.
        dispense_verification example_config
          (store_backend example_config ''+254712345678'' lapsed_customer)
          (1 / 2) ''2025-01-01T00:00:00'' (JObj example_request) []
        = ((JObj response, 200), [customer_request example_config ''+254712345678'']) \<and>
        dict_get response ''approved'' = JBool False \<and>
        dict_get response ''reason'' = JStr ''Subscription inactive'')
   \<and> lookup_customer_by_phone example_config
        (store_backend example_config ''+254712345678'' example_customer)
        (dict_get wrong_pin_request ''user_id'') (dict_get wrong_pin_request ''pin'') []
      = (Inr (found_result example_customer (dict_get wrong_pin_request ''pin'')),
         [customer_request example_config ''+254712345678''])
   \<and> (\<exists>response.
        dispense_verification example_config
          (store_backend example_config ''+254712345678'' example_customer)
          (1 / 2) ''2025-01-01T00:00:00'' (JObj wrong_pin_request) []
        = ((JObj response, 200), [customer_request example_config ''+254712345678'']) \<and>
        dict_get response ''approved'' = JBool False \<and>
        dict_get response ''reason'' = JStr ''Invalid PIN'')
   \<and> lookup_customer_by_phone example_config
        (store_backend example_config ''+254712345678'' example_customer)
        (dict_get example_request ''user_id'') (dict_get example_request ''pin'') []
      = (Inr (found_result example_customer (dict_get example_request ''pin'')),
         [customer_request example_config ''+254712345678''])
   \<and> (\<exists>response.
        dispense_verification example_config
          (store_backend example_config ''+254712345678'' example_customer)
          (1 / 2) ''2025-01-01T00:00:00'' (JObj example_request) []
        = ((JObj response, 200), [customer_request example_config ''+254712345678'']) \<and>
        dict_get response ''approved'' = JBool True \<and>
        dict_get response ''reason'' = JStr ''Customer verified in database'')
   \<and> lookup_customer_by_phone example_config empty_backend
        (dict_get example_request ''user_id'') (dict_get example_request ''pin'') []
      = (Inr not_found_result,
         map (customer_request example_config) (phone_variants ''+254712345678''))
   \<and> (\<exists>response.
        dispense_verification example_config empty_backend
          (1 / 2) ''2025-01-01T00:00:00'' (JObj example_request) []
        = ((JObj response, 200),
           map (customer_request example_config) (phone_variants ''+254712345678'')) \<and>
        dict_get response ''approved'' = JBool False \<and>
        dict_get response ''reason'' = JStr ''Customer not found in database'')"
proof -
  have v1: "list_all truthy [dict_get example_request ''kiosk_id'',
      dict_get example_request ''user_id'', dict_get example_request ''pin'']"
    by (simp add: example_request_fields)
  have v2: "list_all truthy [dict_get wrong_pin_request ''kiosk_id'',
      dict_get wrong_pin_request ''user_id'', dict_get wrong_pin_request ''pin'']"
    by (simp add: wrong_pin_request_fields)
  have l1: "lookup_customer_by_phone example_config
        (store_backend example_config ''+254712345678'' customer)
        (dict_get example_request ''user_id'') (dict_get example_request ''pin'') []
      = (Inr (case Some customer of None \<Rightarrow> not_found_result
              | Some c \<Rightarrow> found_result c (dict_get example_request ''pin'')),
         [customer_request example_config ''+254712345678''])" for customer
    using store_lookup[of example_config "''+254712345678''" customer
        "dict_get example_request ''pin''" "[]"]
    by (simp add: example_request_fields)
  have l2: "lookup_customer_by_phone example_config
        (store_backend example_config ''+254712345678'' customer)
        (dict_get wrong_pin_request ''user_id'') (dict_get wrong_pin_request ''pin'') []
      = (Inr (case Some customer of None \<Rightarrow> not_found_result
              | Some c \<Rightarrow> found_result c (dict_get wrong_pin_request ''pin'')),
         [customer_request example_config ''+254712345678''])" for customer
    using store_lookup[of example_config "''+254712345678''" customer
        "dict_get wrong_pin_request ''pin''" "[]"]
    by (simp add: wrong_pin_request_fields)
  have nodocs: "\<forall>j<length (phone_variants ''+254712345678''). returns_no_documents
     (answer empty_backend [] (map (customer_request example_config)
        (phone_variants ''+254712345678'')) j)"
    by (simp add: answer_def empty_backend_def returns_no_documents_def no_documents_response_def
        dict_get_Cons)
  have l3: "lookup_customer_by_phone example_config empty_backend
        (dict_get example_request ''user_id'') (dict_get example_request ''pin'') []
      = (Inr (case None :: (string \<times> json) list option of None \<Rightarrow> not_found_result
              | Some c \<Rightarrow> found_result c (dict_get example_request ''pin'')),
         map (customer_request example_config) (phone_variants ''+254712345678''))"
    using loop_not_found[OF nodocs, of "JStr ''4455''"]
    by (simp add: example_request_fields lookup_customer_by_phone_def)
  note a = decision_order[OF v1 l1[of unregistered_customer], of "1 / 2" "''2025-01-01T00:00:00''"]
  note b = decision_order[OF v1 l1[of lapsed_customer], of "1 / 2" "''2025-01-01T00:00:00''"]
  note c = decision_order[OF v2 l2[of example_customer], of "1 / 2" "''2025-01-01T00:00:00''"]
  note d = decision_order[OF v1 l1[of example_customer], of "1 / 2" "''2025-01-01T00:00:00''"]
  note e = decision_order[OF v1 l3, of "1 / 2" "''2025-01-01T00:00:00''"]
  have A: "\<exists>response.
        dispense_verification example_config
          (store_backend example_config ''+254712345678'' unregistered_customer)
          (1 / 2) ''2025-01-01T00:00:00'' (JObj example_request) []
        = ((JObj response, 200), [customer_request example_config ''+254712345678'']) \<and>
        dict_get response ''approved'' = JBool False \<and>
        dict_get response ''reason'' = JStr ''Customer not fully registered''"
    using a by (auto simp: customer_flags)
  have B: "\<exists>response.
        dispense_verification example_config
          (store_backend example_config ''+254712345678'' lapsed_customer)
          (1 / 2) ''2025-01-01T00:00:00'' (JObj example_request) []
        = ((JObj response, 200), [customer_request example_config ''+254712345678'']) \<and>
        dict_get response ''approved'' = JBool False \<and>
        dict_get response ''reason'' = JStr ''Subscription inactive''"
    using b by (auto simp: customer_flags)
  have C: "\<exists>response.
        dispense_verification example_config
          (store_backend example_config ''+254712345678'' example_customer)
          (1 / 2) ''2025-01-01T00:00:00'' (JObj wrong_pin_request) []
        = ((JObj response, 200), [customer_request example_config ''+254712345678'']) \<and>
        dict_get response ''approved'' = JBool False \<and>
        dict_get response ''reason'' = JStr ''Invalid PIN''"
    using c by (auto simp: customer_flags wrong_pin_request_fields)
  have D: "\<exists>response.
        dispense_verification example_config
          (store_backend example_config ''+254712345678'' example_customer)
          (1 / 2) ''2025-01-01T00:00:00'' (JObj example_request) []
        = ((JObj response, 200), [customer_request example_config ''+254712345678'']) \<and>
        dict_get response ''approved'' = JBool True \<and>
        dict_get response ''reason'' = JStr ''Customer verified in database''"
    using d by (auto simp: customer_flags example_request_fields)
  have E: "\<exists>response.
        dispense_verification example_config empty_backend
          (1 / 2) ''2025-01-01T00:00:00'' (JObj example_request) []
        = ((JObj response, 200),
           map (customer_request example_config) (phone_variants ''+254712345678'')) \<and>
        dict_get response ''approved'' = JBool False \<and>
        dict_get response ''reason'' = JStr ''Customer not found in database''"
    using e by auto
  show ?thesis
    using v1 v2 l1[of unregistered_customer] l1[of lapsed_customer] l2[of example_customer]
      l1[of example_customer] l3 A B C D E
    by (simp only: option.case simp_thms)
qed

text \<open>
  \<^bold>\<open>C2.\<close> When the lookup raises, whatever the exception, a dispense request that passed the
  required-field check is still answered with status 200 and a decision object without
  an \<open>error\<close> field. It is approved exactly when the random draw is below 0.9, and in both
  branches the reason begins with \<open>Database unavailable\<close>.
\<close>

theorem fallback_on_failure:
  assumes "list_all truthy [dict_get d ''kiosk_id'', dict_get d ''user_id'', dict_get d ''pin'']"
    and "lookup_customer_by_phone cfg be (dict_get d ''user_id'') (dict_get d ''pin'') sent
           = (Inl e, sent')"
  shows "\<exists>response.
     dispense_verification cfg be random_draw now (JObj d) sent = ((JObj response, 200), sent') \<and>
     map_of response ''error'' = None \<and>
     dict_get response ''approved'' = JBool (random_draw < 9 / 10) \<and>
     dict_get response ''reason'' =
       JStr (''Database unavailable'' @
             (if random_draw < 9 / 10 then '' - approved by fallback (90% chance)''
              else '' - denied by fallback (10% chance)''))"
  using assms(2)
  by (simp add: dispense_valid[OF assms(1)] fallback_def Let_def dict_get_Cons)

text \<open>
  A backend that times out and a draw of 0.95: the request is denied by the fallback.
\<close>

theorem fallback_on_failure_witness:
  "list_all truthy [dict_get example_request ''kiosk_id'', dict_get example_request ''user_id'',
                    dict_get example_request ''pin'']
   \<and> lookup_customer_by_phone example_config failing_backend
        (dict_get example_request ''user_id'') (dict_get example_request ''pin'') []
      = (Inl (BackendFailure ''<urlopen error timed out>''),
         [customer_request example_config ''+254712345678''])
   \<and> (\<exists>response.
        dispense_verification example_config failing_backend (95 / 100) ''2025-01-01T00:00:00''
          (JObj example_request) []
        = ((JObj response, 200), [customer_request example_config ''+254712345678'']) \<and>
        dict_get response ''approved'' = JBool False \<and>
        dict_get response ''reason'' = JStr ''Database unavailable - denied by fallback (10% chance)'')"
  using fallback_on_failure[OF example_valid failing_lookup, of "95 / 100" "''2025-01-01T00:00:00''"]
    example_valid failing_lookup
  by auto

text \<open>
  \<^bold>\<open>C3.\<close> The candidate list is a function of the input alone and always has five
  entries, in this order: the literal input; the input with \<open>+254\<close> replaced by \<open>0\<close>; with
  \<open>+254\<close> replaced by \<open>254\<close>; with \<open>+254\<close> removed; and the input with leading zeros
  stripped and \<open>+254\<close> prepended when it does not start with \<open>+\<close>, the literal input again
  otherwise. The literal input is the first candidate, and the first request a lookup
  sends is the one for the literal input. What the replacements do is stated without
  reference to how \<open>replace\<close> computes: an input without \<open>+254\<close> is left as it is; in an
  input \<open>u +254 v\<close> whose first occurrence of \<open>+254\<close> follows \<open>u\<close>, that occurrence becomes
  the new text and the replacement goes on in \<open>v\<close>, so every occurrence is replaced. In
  particular, for \<open>+254\<close> followed by a rest without \<open>+254\<close> the candidates are the
  input, \<open>0\<close> and the rest, \<open>254\<close> and the rest, the rest, and the input again.
  (A phone number is a \<open>str\<close>; on any other value the first \<open>replace\<close> raises.)
\<close>

theorem phone_variants_fixed:
  "phone_variants p =
     [p,
      replace ''+254'' ''0'' p,
      replace ''+254'' ''254'' p,
      replace ''+254'' '''' p,
      (if startswith p ''+'' then p else ''+254'' @ dropWhile (\<lambda>c. c = CHR ''0'') p)]
   \<and> length (phone_variants p) = 5
   \<and> hd (phone_variants p) = p
   \<and> (\<exists>rest. snd (lookup_customer_by_phone cfg be (JStr p) pin sent)
               = sent @ customer_request cfg p # rest)
   \<and> startswith p ''+'' = (\<exists>rest. p = ''+'' @ rest)
   \<and> (\<forall>new. \<not> sublist ''+254'' p \<longrightarrow> replace ''+254'' new p = p)
   \<and> (\<forall>new u v. p = u @ ''+254'' @ v \<and> \<not> sublist ''+254'' (u @ ''+25'')
         \<longrightarrow> replace ''+254'' new p = u @ new @ replace ''+254'' new v)
   \<and> (\<forall>rest. p = ''+254'' @ rest \<and> \<not> sublist ''+254'' rest
         \<longrightarrow> phone_variants p
               = [''+254'' @ rest, ''0'' @ rest, ''254'' @ rest, rest, ''+254'' @ rest])"
proof -
  have v: "phone_variants p =
     [p, replace ''+254'' ''0'' p, replace ''+254'' ''254'' p, replace ''+254'' '''' p,
      (if startswith p ''+'' then p else ''+254'' @ dropWhile (\<lambda>c. c = CHR ''0'') p)]"
    by (simp add: phone_variants_def lstrip_def)
  have f: "\<exists>rest. snd (lookup_customer_by_phone cfg be (JStr p) pin sent)
               = sent @ customer_request cfg p # rest"
    unfolding lookup_customer_by_phone_def json.case v by (rule loop_first)
  have s: "startswith p ''+'' = (\<exists>rest. p = ''+'' @ rest)"
    by (auto simp: startswith_def prefix_def)
  have a: "\<forall>new. \<not> sublist ''+254'' p \<longrightarrow> replace ''+254'' new p = p"
    by (simp add: replace_absent)
  have o: "\<forall>new u v. p = u @ ''+254'' @ v \<and> \<not> sublist ''+254'' (u @ ''+25'')
         \<longrightarrow> replace ''+254'' new p = u @ new @ replace ''+254'' new v"
  proof (intro allI impI)
    fix new u v
    assume h: "p = u @ ''+254'' @ v \<and> \<not> sublist ''+254'' (u @ ''+25'')"
    have "replace ''+254'' new (u @ ''+254'' @ v) = u @ new @ replace ''+254'' new v"
      by (rule replace_first) (use h in simp_all)
    with h show "replace ''+254'' new p = u @ new @ replace ''+254'' new v" by simp
  qed
  have i: "\<forall>rest. p = ''+254'' @ rest \<and> \<not> sublist ''+254'' rest
         \<longrightarrow> phone_variants p
               = [''+254'' @ rest, ''0'' @ rest, ''254'' @ rest, rest, ''+254'' @ rest]"
    using phone_variants_international by blast
  have l: "length (phone_variants p) = 5" "hd (phone_variants p) = p"
    by (simp_all add: v)
  show ?thesis
    by (rule conjI[OF v conjI[OF l(1) conjI[OF l(2) conjI[OF f conjI[OF s conjI[OF a
          conjI[OF o i]]]]]]])
qed

text \<open>
  The candidates of \<open>+254712345678\<close> and of \<open>0712345678\<close>, and a replacement inside
  a string.
\<close>

theorem phone_variants_fixed_witness:
  "\<not> sublist ''+254'' ''712345678''
   \<and> phone_variants ''+254712345678''
      = [''+254712345678'', ''0712345678'', ''254712345678'', ''712345678'', ''+254712345678'']
   \<and> \<not> sublist ''+254'' ''0712345678''
   \<and> phone_variants ''0712345678''
      = [''0712345678'', ''0712345678'', ''0712345678'', ''0712345678'', ''+254712345678'']
   \<and> \<not> sublist ''+254'' ''07+25''
   \<and> replace ''+254'' ''0'' ''07+254712'' = ''07'' @ ''0'' @ replace ''+254'' ''0'' ''712''"
proof -
  have n1: "\<not> sublist ''+254'' ''712345678''" by (simp add: sublist_Cons_right)
  have n2: "\<not> sublist ''+254'' ''0712345678''" by (simp add: sublist_Cons_right)
  have n3: "\<not> sublist ''+254'' ''07+25''" by (simp add: sublist_Cons_right)
  note t1 = phone_variants_fixed[of "''+254712345678''" example_config empty_backend JNull "[]"]
  note t2 = phone_variants_fixed[of "''0712345678''" example_config empty_backend JNull "[]"]
  note t3 = phone_variants_fixed[of "''07+254712''" example_config empty_backend JNull "[]"]
  from t1 have "\<forall>rest. ''+254712345678'' = ''+254'' @ rest \<and> \<not> sublist ''+254'' rest
         \<longrightarrow> phone_variants ''+254712345678''
               = [''+254'' @ rest, ''0'' @ rest, ''254'' @ rest, rest, ''+254'' @ rest]"
    by (elim conjE)
  from this[rule_format, of "''712345678''"] n1
  have a: "phone_variants ''+254712345678''
      = [''+254712345678'', ''0712345678'', ''254712345678'', ''712345678'', ''+254712345678'']"
    by simp
  from t2 have v: "phone_variants ''0712345678'' =
     [''0712345678'', replace ''+254'' ''0'' ''0712345678'',
      replace ''+254'' ''254'' ''0712345678'', replace ''+254'' '''' ''0712345678'',
      (if startswith ''0712345678'' ''+'' then ''0712345678''
       else ''+254'' @ dropWhile (\<lambda>c. c = CHR ''0'') ''0712345678'')]"
    by (elim conjE)
  from t2 have st: "startswith ''0712345678'' ''+'' = (\<exists>rest. ''0712345678'' = ''+'' @ rest)"
    by (elim conjE)
  from t2 have ab: "\<forall>new. \<not> sublist ''+254'' ''0712345678''
               \<longrightarrow> replace ''+254'' new ''0712345678'' = ''0712345678''"
    by (elim conjE)
  have b: "phone_variants ''0712345678''
      = [''0712345678'', ''0712345678'', ''0712345678'', ''0712345678'', ''+254712345678'']"
    unfolding v st using ab n2 by simp
  from t3 have "\<forall>new u v. ''07+254712'' = u @ ''+254'' @ v \<and> \<not> sublist ''+254'' (u @ ''+25'')
         \<longrightarrow> replace ''+254'' new ''07+254712'' = u @ new @ replace ''+254'' new v"
    by (elim conjE)
  from this[rule_format, of "''07''" "''712''" "''0''"] n3
  have c: "replace ''+254'' ''0'' ''07+254712'' = ''07'' @ ''0'' @ replace ''+254'' ''0'' ''712''"
    by (simp del: replace.simps)
  from n1 a n2 b n3 c show ?thesis by (simp del: replace.simps)
qed

text \<open>
  \<^bold>\<open>C4.\<close> The lookup sends the requests of the five candidates in the order of the list,
  each at most once per position, and stops at the first answer that is not empty.
  If the answers to the first \<open>i\<close> requests hold no documents and the answer to the next one
  holds at least one, the lookup has sent exactly the first \<open>i + 1\<close> requests, none of the
  later ones, and returns the dict read from the first document of that answer: \<open>found\<close>
  true, \<open>valid_pin\<close> the comparison of the document's \<open>pin\<close> with the claimed PIN (equality
  when the stored PIN is a string), \<open>is_registered\<close> and \<open>active\<close> true exactly when the
  document holds \<open>True\<close> (or \<open>1\<close>), and as customer data the document's \<open>phone_number\<close>,
  \<open>account_id\<close>, \<open>full_name\<close>, \<open>active\<close> and \<open>credits\<close>. It reports not found, having
  sent all five, exactly when all five answers hold no documents. In every case, also
  when a call raises, the requests sent are a non-empty initial segment of the five.
\<close>

theorem first_match_lookup:
  "(\<forall>i customer.
      i < 5 \<and>
      (\<forall>j<i. returns_no_documents (answer be sent (customer_requests cfg p) j)) \<and>
      returns_document customer (answer be sent (customer_requests cfg p) i)
      \<longrightarrow> lookup_customer_by_phone cfg be (JStr p) pin sent
            = (Inr \<lparr>found = True,
                    valid_pin = py_eq (dict_get customer ''pin'') pin,
                    is_registered = (dict_get customer ''is_registered'' \<in> {JBool True, JInt 1}),
                    active = (dict_get customer ''active'' \<in> {JBool True, JInt 1}),
                    customer_data = Some (JObj
                      [(''phone_number'', dict_get customer ''phone_number''),
                       (''account_id'', dict_get customer ''account_id''),
                       (''full_name'', dict_get customer ''full_name''),
                       (''active'', dict_get customer ''active''),
                       (''credits'', dict_get_default customer ''credits'' (JInt 0))])\<rparr>,
               sent @ take (Suc i) (customer_requests cfg p)) \<and>
          (\<forall>stored. dict_get customer ''pin'' = JStr stored
             \<longrightarrow> py_eq (dict_get customer ''pin'') pin = (pin = JStr stored)))
   \<and> ((\<forall>j<5. returns_no_documents (answer be sent (customer_requests cfg p) j))
        \<longleftrightarrow> lookup_customer_by_phone cfg be (JStr p) pin sent
              = (Inr not_found_result, sent @ customer_requests cfg p))
   \<and> (\<forall>sent'. lookup_customer_by_phone cfg be (JStr p) pin sent = (Inr not_found_result, sent')
        \<longrightarrow> sent' = sent @ customer_requests cfg p)
   \<and> (\<exists>n. 1 \<le> n \<and> n \<le> 5 \<and>
        snd (lookup_customer_by_phone cfg be (JStr p) pin sent)
          = sent @ take n (customer_requests cfg p))"
proof -
  have A: "\<forall>i customer.
      i < 5 \<and>
      (\<forall>j<i. returns_no_documents (answer be sent (customer_requests cfg p) j)) \<and>
      returns_document customer (answer be sent (customer_requests cfg p) i)
      \<longrightarrow> lookup_customer_by_phone cfg be (JStr p) pin sent
            = (Inr \<lparr>found = True,
                    valid_pin = py_eq (dict_get customer ''pin'') pin,
                    is_registered = (dict_get customer ''is_registered'' \<in> {JBool True, JInt 1}),
                    active = (dict_get customer ''active'' \<in> {JBool True, JInt 1}),
                    customer_data = Some (JObj
                      [(''phone_number'', dict_get customer ''phone_number''),
                       (''account_id'', dict_get customer ''account_id''),
                       (''full_name'', dict_get customer ''full_name''),
                       (''active'', dict_get customer ''active''),
                       (''credits'', dict_get_default customer ''credits'' (JInt 0))])\<rparr>,
               sent @ take (Suc i) (customer_requests cfg p)) \<and>
          (\<forall>stored. dict_get customer ''pin'' = JStr stored
             \<longrightarrow> py_eq (dict_get customer ''pin'') pin = (pin = JStr stored))"
  proof (intro allI impI)
    fix i customer
    assume a: "i < 5 \<and>
      (\<forall>j<i. returns_no_documents (answer be sent (customer_requests cfg p) j)) \<and>
      returns_document customer (answer be sent (customer_requests cfg p) i)"
    then have "i < length (phone_variants p)" by (simp add: phone_variants_def)
    from loop_found[OF this, of be sent cfg customer pin] a
    have "lookup_customer_by_phone cfg be (JStr p) pin sent
            = (Inr (found_result customer pin), sent @ take (Suc i) (customer_requests cfg p))"
      by (simp add: lookup_loop_eq customer_requests_def)
    then show "lookup_customer_by_phone cfg be (JStr p) pin sent
            = (Inr \<lparr>found = True,
                    valid_pin = py_eq (dict_get customer ''pin'') pin,
                    is_registered = (dict_get customer ''is_registered'' \<in> {JBool True, JInt 1}),
                    active = (dict_get customer ''active'' \<in> {JBool True, JInt 1}),
                    customer_data = Some (JObj
                      [(''phone_number'', dict_get customer ''phone_number''),
                       (''account_id'', dict_get customer ''account_id''),
                       (''full_name'', dict_get customer ''full_name''),
                       (''active'', dict_get customer ''active''),
                       (''credits'', dict_get_default customer ''credits'' (JInt 0))])\<rparr>,
               sent @ take (Suc i) (customer_requests cfg p)) \<and>
          (\<forall>stored. dict_get customer ''pin'' = JStr stored
             \<longrightarrow> py_eq (dict_get customer ''pin'') pin = (pin = JStr stored))"
      by (simp add: found_result_def py_eq_true py_eq_string)
  qed
  have B: "(\<forall>j<5. returns_no_documents (answer be sent (customer_requests cfg p) j))
        \<longleftrightarrow> lookup_customer_by_phone cfg be (JStr p) pin sent
              = (Inr not_found_result, sent @ customer_requests cfg p)"
  proof
    assume "\<forall>j<5. returns_no_documents (answer be sent (customer_requests cfg p) j)"
    then have "\<forall>j<length (phone_variants p). returns_no_documents
       (answer be sent (map (customer_request cfg) (phone_variants p)) j)"
      by (simp add: customer_requests_def phone_variants_def)
    from loop_not_found[OF this] show "lookup_customer_by_phone cfg be (JStr p) pin sent
              = (Inr not_found_result, sent @ customer_requests cfg p)"
      by (simp add: lookup_loop_eq customer_requests_def)
  next
    assume "lookup_customer_by_phone cfg be (JStr p) pin sent
              = (Inr not_found_result, sent @ customer_requests cfg p)"
    then have l: "lookup_loop cfg be pin (phone_variants p) sent
              = (Inr not_found_result, sent @ customer_requests cfg p)"
      by (simp add: lookup_loop_eq)
    have "\<not> found not_found_result" by (simp add: not_found_result_def)
    from loop_not_found_only[OF l this]
    show "\<forall>j<5. returns_no_documents (answer be sent (customer_requests cfg p) j)"
      by (simp add: customer_requests_def phone_variants_def)
  qed
  have C: "\<forall>sent'. lookup_customer_by_phone cfg be (JStr p) pin sent = (Inr not_found_result, sent')
        \<longrightarrow> sent' = sent @ customer_requests cfg p"
  proof (intro allI impI)
    fix sent'
    assume "lookup_customer_by_phone cfg be (JStr p) pin sent = (Inr not_found_result, sent')"
    then have "lookup_loop cfg be pin (phone_variants p) sent = (Inr not_found_result, sent')"
      by (simp add: lookup_loop_eq)
    from loop_unmatched_sent[OF this] show "sent' = sent @ customer_requests cfg p"
      by (simp add: customer_requests_def)
  qed
  have D: "\<exists>n. 1 \<le> n \<and> n \<le> 5 \<and>
        snd (lookup_customer_by_phone cfg be (JStr p) pin sent)
          = sent @ take n (customer_requests cfg p)"
  proof -
    obtain v vs where v: "phone_variants p = v # vs" "length vs = 4"
      by (simp add: phone_variants_def)
    from loop_sent[of vs cfg be pin "sent @ [customer_request cfg v]"]
    obtain n where n: "n \<le> length vs"
      "snd (lookup_loop cfg be pin vs (sent @ [customer_request cfg v]))
         = (sent @ [customer_request cfg v]) @ take n (map (customer_request cfg) vs)" by blast
    have "snd (lookup_loop cfg be pin (v # vs) sent)
            = sent @ take (Suc 0) (map (customer_request cfg) (v # vs))
        \<or> snd (lookup_loop cfg be pin (v # vs) sent)
            = sent @ take (Suc n) (map (customer_request cfg) (v # vs))"
      using n(2) by (auto simp: Let_def split: sum.splits option.splits)
    then show ?thesis
    proof
      assume "snd (lookup_loop cfg be pin (v # vs) sent)
            = sent @ take (Suc 0) (map (customer_request cfg) (v # vs))"
      then show ?thesis
        by (intro exI[of _ "Suc 0"]) (simp add: lookup_loop_eq customer_requests_def v)
    next
      assume "snd (lookup_loop cfg be pin (v # vs) sent)
            = sent @ take (Suc n) (map (customer_request cfg) (v # vs))"
      then show ?thesis using n(1) v(2)
        by (intro exI[of _ "Suc n"]) (simp add: lookup_loop_eq customer_requests_def v)
    qed
  qed
  show ?thesis by (rule conjI[OF A conjI[OF B conjI[OF C D]]])
qed

text \<open>
  A customer with an inactive subscription stored as \<open>+254712345678\<close>, and a kiosk that
  sends \<open>0712345678\<close> with a wrong PIN: four identical requests are answered without
  documents, the fifth finds the customer, and the result holds that customer's data
  with \<open>valid_pin\<close> and \<open>active\<close> false. Against a backend without customers all five
  requests are sent and the customer is not found.
\<close>

theorem first_match_lookup_witness:
  "returns_no_documents (answer (store_backend example_config ''+254712345678'' lapsed_customer) []
      (customer_requests example_config ''0712345678'') 0)
   \<and> returns_no_documents (answer (store_backend example_config ''+254712345678'' lapsed_customer) []
      (customer_requests example_config ''0712345678'') 1)
   \<and> returns_no_documents (answer (store_backend example_config ''+254712345678'' lapsed_customer) []
      (customer_requests example_config ''0712345678'') 2)
   \<and> returns_no_documents (answer (store_backend example_config ''+254712345678'' lapsed_customer) []
      (customer_requests example_config ''0712345678'') 3)
   \<and> returns_document lapsed_customer
     (answer (store_backend example_config ''+254712345678'' lapsed_customer) []
      (customer_requests example_config ''0712345678'') 4)
   \<and> lookup_customer_by_phone example_config
        (store_backend example_config ''+254712345678'' lapsed_customer)
        (JStr ''0712345678'') (JStr ''0000'') []
      = (Inr \<lparr>found = True, valid_pin = False, is_registered = True, active = False,
              customer_data = Some (JObj
                [(''phone_number'', JStr ''+254712345678''),
                 (''account_id'', JStr ''ACC-2''),
                 (''full_name'', JStr ''John Doe''),
                 (''active'', JBool False),
                 (''credits'', JInt 0)])\<rparr>,
         [customer_request example_config ''0712345678'',
          customer_request example_config ''0712345678'',
          customer_request example_config ''0712345678'',
          customer_request example_config ''0712345678'',
          customer_request example_config ''+254712345678''])
   \<and> returns_no_documents (answer empty_backend []
      (customer_requests example_config ''0712345678'') 0)
   \<and> returns_no_documents (answer empty_backend []
      (customer_requests example_config ''0712345678'') 1)
   \<and> returns_no_documents (answer empty_backend []
      (customer_requests example_config ''0712345678'') 2)
   \<and> returns_no_documents (answer empty_backend []
      (customer_requests example_config ''0712345678'') 3)
   \<and> returns_no_documents (answer empty_backend []
      (customer_requests example_config ''0712345678'') 4)
   \<and> lookup_customer_by_phone example_config empty_backend (JStr ''0712345678'') (JStr ''0000'') []
      = (Inr not_found_result,
         [customer_request example_config ''0712345678'',
          customer_request example_config ''0712345678'',
          customer_request example_config ''0712345678'',
          customer_request example_config ''0712345678'',
          customer_request example_config ''+254712345678''])"
proof -
  have none: "returns_no_documents (answer empty_backend [] (customer_requests example_config ''0712345678'') j)"
    for j
    by (simp add: answer_def empty_backend_def returns_no_documents_def no_documents_response_def
        dict_get_Cons)
  note general = first_match_lookup[of _ "[]" example_config "''0712345678''" "JStr ''0000''"]
  from general[of empty_backend]
  have "(\<forall>j<5. returns_no_documents
           (answer empty_backend [] (customer_requests example_config ''0712345678'') j))
        \<longleftrightarrow> lookup_customer_by_phone example_config empty_backend (JStr ''0712345678'')
              (JStr ''0000'') []
              = (Inr not_found_result, [] @ customer_requests example_config ''0712345678'')"
    by (elim conjE)
  with none have unmatched: "lookup_customer_by_phone example_config empty_backend
      (JStr ''0712345678'') (JStr ''0000'') []
      = (Inr not_found_result, [] @ customer_requests example_config ''0712345678'')"
    by simp
  have early: "\<forall>j<4. returns_no_documents
      (answer (store_backend example_config ''+254712345678'' lapsed_customer) []
        (customer_requests example_config ''0712345678'') j)"
  proof (intro allI impI)
    fix j :: nat assume "j < 4"
    then consider "j = 0" | "j = 1" | "j = 2" | "j = 3" by linarith
    then show "returns_no_documents
      (answer (store_backend example_config ''+254712345678'' lapsed_customer) []
        (customer_requests example_config ''0712345678'') j)"
      by cases (simp_all only: example_local_answers)
  qed
  have hyp: "4 < (5::nat) \<and>
      (\<forall>j<4. returns_no_documents
         (answer (store_backend example_config ''+254712345678'' lapsed_customer) []
           (customer_requests example_config ''0712345678'') j)) \<and>
      returns_document lapsed_customer
        (answer (store_backend example_config ''+254712345678'' lapsed_customer) []
           (customer_requests example_config ''0712345678'') 4)"
    using early example_local_answers(5) by simp
  from general[of "store_backend example_config ''+254712345678'' lapsed_customer"]
  have "\<forall>i customer.
      i < 5 \<and>
      (\<forall>j<i. returns_no_documents
         (answer (store_backend example_config ''+254712345678'' lapsed_customer) []
           (customer_requests example_config ''0712345678'') j)) \<and>
      returns_document customer
        (answer (store_backend example_config ''+254712345678'' lapsed_customer) []
           (customer_requests example_config ''0712345678'') i)
      \<longrightarrow> lookup_customer_by_phone example_config
             (store_backend example_config ''+254712345678'' lapsed_customer)
             (JStr ''0712345678'') (JStr ''0000'') []
            = (Inr \<lparr>found = True,
                    valid_pin = py_eq (dict_get customer ''pin'') (JStr ''0000''),
                    is_registered = (dict_get customer ''is_registered'' \<in> {JBool True, JInt 1}),
                    active = (dict_get customer ''active'' \<in> {JBool True, JInt 1}),
                    customer_data = Some (JObj
                      [(''phone_number'', dict_get customer ''phone_number''),
                       (''account_id'', dict_get customer ''account_id''),
                       (''full_name'', dict_get customer ''full_name''),
                       (''active'', dict_get customer ''active''),
                       (''credits'', dict_get_default customer ''credits'' (JInt 0))])\<rparr>,
               [] @ take (Suc i) (customer_requests example_config ''0712345678'')) \<and>
          (\<forall>stored. dict_get customer ''pin'' = JStr stored
             \<longrightarrow> py_eq (dict_get customer ''pin'') (JStr ''0000'') = (JStr ''0000'' = JStr stored))"
    by (elim conjE)
  from this[rule_format, OF hyp]
  have "lookup_customer_by_phone example_config
             (store_backend example_config ''+254712345678'' lapsed_customer)
             (JStr ''0712345678'') (JStr ''0000'') []
      = (Inr \<lparr>found = True, valid_pin = False, is_registered = True, active = False,
              customer_data = Some (JObj
                [(''phone_number'', JStr ''+254712345678''),
                 (''account_id'', JStr ''ACC-2''),
                 (''full_name'', JStr ''John Doe''),
                 (''active'', JBool False),
                 (''credits'', JInt 0)])\<rparr>,
         [customer_request example_config ''0712345678'',
          customer_request example_config ''0712345678'',
          customer_request example_config ''0712345678'',
          customer_request example_config ''0712345678'',
          customer_request example_config ''+254712345678''])"
    by (simp add: customer_flags lapsed_customer_fields example_local_requests)
  then show ?thesis using example_local_answers none unmatched
    by (simp add: example_local_requests)
qed

text \<open>
  \<^bold>\<open>C5.\<close> Whatever the request body, a response that says \<open>approved\<close> comes from one of two
  places. Either the lookup raised and the fallback approved: then no \<open>user_data\<close> is
  attached. Or the lookup matched a record \<open>customer\<close> that passed every check: then
  \<open>user_data\<close> is attached and is the dict of exactly the five fields \<open>phone_number\<close>,
  \<open>account_id\<close>, \<open>full_name\<close>, \<open>active\<close> and \<open>credits\<close>, each read from that record
  (\<open>credits\<close> is 0 when the record has none), and it has no \<open>pin\<close> field.
\<close>

theorem approved_payload:
  assumes "dispense_verification cfg be random_draw now data sent = ((JObj response, code), sent')"
    and "dict_get response ''approved'' = JBool True"
  shows "\<exists>d. data = JObj d \<and>
     ((map_of response ''user_data'' = None \<and>
       dict_get response ''reason'' = JStr ''Database unavailable - approved by fallback (90% chance)'')
      \<or> (\<exists>customer payload.
            lookup_customer_by_phone cfg be (dict_get d ''user_id'') (dict_get d ''pin'') sent
              = (Inr (found_result customer (dict_get d ''pin'')), sent') \<and>
            dict_get response ''reason'' = JStr ''Customer verified in database'' \<and>
            map_of response ''user_data'' = Some (JObj payload) \<and>
            payload = [(''phone_number'', dict_get customer ''phone_number''),
                       (''account_id'', dict_get customer ''account_id''),
                       (''full_name'', dict_get customer ''full_name''),
                       (''active'', dict_get customer ''active''),
                       (''credits'', dict_get_default customer ''credits'' (JInt 0))] \<and>
            map_of payload ''pin'' = None))"
proof -
  have t: "truthy data"
    using assms by (auto simp: dispense_verification_def dict_get_Cons split: if_splits)
  then obtain d where d: "data = JObj d"
    using assms
    by (cases data) (auto simp: dispense_verification_def dict_get_Cons)
  have v: "list_all truthy [dict_get d ''kiosk_id'', dict_get d ''user_id'', dict_get d ''pin'']"
  proof (rule ccontr)
    assume n: "\<not> ?thesis"
    from t d have "d \<noteq> []" by simp
    from dispense_rejects[OF this n, of cfg be random_draw now sent] assms(1) d
    have "response = [(''error'', JStr ''Missing required fields: kiosk_id, user_id (phone_number), pin''),
             (''approved'', JBool False),
             (''reason'', JStr ''Invalid request format'')]" by simp
    with assms(2) show False by (simp add: dict_get_Cons)
  qed
  from dispense_outcome[OF v, of cfg be random_draw now sent]
  obtain approved reason user_data sent2 where
    run: "dispense_verification cfg be random_draw now (JObj d) sent
       = ((JObj (envelope d now approved reason user_data), 200), sent2)"
    and alt: "(\<exists>e. lookup_customer_by_phone cfg be (dict_get d ''user_id'') (dict_get d ''pin'') sent
             = (Inl e, sent2)
           \<and> (approved, reason, user_data) = fallback random_draw)
      \<or> (lookup_customer_by_phone cfg be (dict_get d ''user_id'') (dict_get d ''pin'') sent
             = (Inr not_found_result, sent2)
           \<and> (approved, reason, user_data) = (False, ''Customer not found in database'', JNull))
      \<or> (\<exists>customer.
            lookup_customer_by_phone cfg be (dict_get d ''user_id'') (dict_get d ''pin'') sent
             = (Inr (found_result customer (dict_get d ''pin'')), sent2)
           \<and> decision (found_result customer (dict_get d ''pin''))
               = Inr (approved, reason, user_data))"
    by blast
  from run assms(1) d have r: "response = envelope d now approved reason user_data" "sent2 = sent'"
    by simp_all
  have g: "dict_get response ''approved'' = JBool approved" "dict_get response ''reason'' = JStr reason"
    by (simp_all add: r dict_get_def dict_get_default_def envelope_fields)
  with assms(2) have a: approved by simp
  have u: "map_of response ''user_data'' = (if truthy user_data then Some user_data else None)"
    by (simp add: r envelope_fields)
  from alt show ?thesis
  proof (elim disjE exE conjE)
    fix e assume "(approved, reason, user_data) = fallback random_draw"
    with fallback_cases[of random_draw approved reason user_data] a
    have "user_data = JNull" "reason = ''Database unavailable - approved by fallback (90% chance)''"
      by simp_all
    then show ?thesis using d u g by simp
  next
    assume "(approved, reason, user_data) = (False, ''Customer not found in database'', JNull)"
    with a show ?thesis by simp
  next
    fix customer
    assume l: "lookup_customer_by_phone cfg be (dict_get d ''user_id'') (dict_get d ''pin'') sent
             = (Inr (found_result customer (dict_get d ''pin'')), sent2)"
      and "decision (found_result customer (dict_get d ''pin'')) = Inr (approved, reason, user_data)"
    from decision_found_cases[OF this(2)] a
    have "reason = ''Customer verified in database''" "user_data = JObj (redacted customer)"
      by auto
    then have "map_of response ''user_data'' = Some (JObj (redacted customer))"
      "dict_get response ''reason'' = JStr ''Customer verified in database''"
      using u g by (simp_all add: redacted_def)
    moreover have "map_of (redacted customer) ''pin'' = None" by (simp add: redacted_def)
    ultimately show ?thesis using d l r(2) unfolding redacted_def by blast
  qed
qed

text \<open>
  The approved example request: its response carries the five fields and no PIN.
\<close>

theorem approved_payload_witness:
  "dispense_verification example_config
     (store_backend example_config ''+254712345678'' example_customer)
     (1 / 2) ''2025-01-01T00:00:00'' (JObj example_request) []
   = ((JObj example_response, 200), [customer_request example_config ''+254712345678''])
   \<and> dict_get example_response ''approved'' = JBool True
   \<and> (\<exists>payload. map_of example_response ''user_data'' = Some (JObj payload)
                  \<and> map_of payload ''pin'' = None)"
proof -
  have a: "dict_get example_response ''approved'' = JBool True"
    by (simp add: example_response_def dict_get_Cons)
  have u: "map_of example_response ''user_data'' \<noteq> None"
    by (simp add: example_response_def)
  from approved_payload[OF example_run a] u
  have "\<exists>payload. map_of example_response ''user_data'' = Some (JObj payload)
                  \<and> map_of payload ''pin'' = None"
    by (elim exE conjE disjE) (simp, metis)
  with example_run a show ?thesis by simp
qed

text \<open>
  \<^bold>\<open>C6\<close>, amended. A request whose JSON body is a non-empty object in which \<open>kiosk_id\<close>,
  \<open>user_id\<close> or \<open>pin\<close> is missing is answered with status 400, \<open>approved\<close> false and reason
  \<open>Invalid request format\<close>, and no request is sent to the backend: the history of sent
  requests is returned unchanged.
\<close>

theorem missing_field_rejected:
  assumes "d \<noteq> []"
    and "k \<in> {''kiosk_id'', ''user_id'', ''pin''}"
    and "map_of d k = None"
  shows "dispense_verification cfg be random_draw now (JObj d) sent =
     ((JObj [(''error'', JStr ''Missing required fields: kiosk_id, user_id (phone_number), pin''),
             (''approved'', JBool False),
             (''reason'', JStr ''Invalid request format'')], 400), sent)"
proof -
  from assms(2,3) have "\<not> truthy (dict_get d k)" by (simp add: dict_get_missing)
  with assms(2)
  have "\<not> list_all truthy [dict_get d ''kiosk_id'', dict_get d ''user_id'', dict_get d ''pin'']"
    by auto
  with assms(1) show ?thesis by (rule dispense_rejects)
qed

text \<open>
  The example of the specification: a request without \<open>pin\<close>.
\<close>

theorem missing_field_rejected_witness:
  "[(''kiosk_id'', JStr ''K1''), (''user_id'', JStr ''+254712345678'')] \<noteq> []
   \<and> ''pin'' \<in> {''kiosk_id'', ''user_id'', ''pin''}
   \<and> map_of [(''kiosk_id'', JStr ''K1''), (''user_id'', JStr ''+254712345678'')] ''pin'' = None
   \<and> dispense_verification example_config failing_backend (1 / 2) ''2025-01-01T00:00:00''
        (JObj [(''kiosk_id'', JStr ''K1''), (''user_id'', JStr ''+254712345678'')]) []
      = ((JObj [(''error'', JStr ''Missing required fields: kiosk_id, user_id (phone_number), pin''),
                (''approved'', JBool False),
                (''reason'', JStr ''Invalid request format'')], 400), [])"
proof -
  have h1: "[(''kiosk_id'', JStr ''K1''), (''user_id'', JStr ''+254712345678'')] \<noteq> []" by simp
  have h2: "''pin'' \<in> {''kiosk_id'', ''user_id'', ''pin''}" by simp
  have h3: "map_of [(''kiosk_id'', JStr ''K1''), (''user_id'', JStr ''+254712345678'')] ''pin'' = None"
    by simp
  from missing_field_rejected[OF h1 h2 h3, of example_config failing_backend "1 / 2"
      "''2025-01-01T00:00:00''" "[]"] h1 h2 h3
  show ?thesis by blast
qed

text \<open>
  C6 as stated fails on the empty object \<open>{}\<close>. All three fields are missing from it, but
  the guard \<open>if not data\<close> comes first, and an empty dict is falsy: the answer is status
  400 with the single field \<open>error\<close>, without \<open>approved\<close> and without \<open>reason\<close>.
\<close>

theorem empty_body_counterexample:
  "map_of ([] :: (string \<times> json) list) ''pin'' = None
   \<and> dispense_verification example_config failing_backend (1 / 2) ''2025-01-01T00:00:00''
        (JObj []) []
      = ((JObj [(''error'', JStr ''No JSON data provided'')], 400), [])
   \<and> map_of [(''error'', JStr ''No JSON data provided'')] ''approved'' = None
   \<and> map_of [(''error'', JStr ''No JSON data provided'')] ''reason'' = None"
  by (simp add: dispense_verification_def)

text \<open>
  \<^bold>\<open>C7\<close>, amended. A POST whose body is a JSON object with truthy \<open>kiosk_id\<close>, \<open>user_id\<close> and
  \<open>pin\<close> is answered with status 200 and a decision object that contains the kiosk id,
  the claimed phone number as \<open>user_id\<close>, the PIN as received, the requested volume
  (\<open>None\<close> when the request has none), a boolean \<open>approved\<close>, a string \<open>reason\<close>, the
  response timestamp and the type tag; \<open>user_data\<close> is present exactly when the reason is
  \<open>Customer verified in database\<close>.
\<close>

theorem decision_object:
  assumes "list_all truthy [dict_get d ''kiosk_id'', dict_get d ''user_id'', dict_get d ''pin'']"
  shows "\<exists>response approved reason.
     fst (dispense_verification cfg be random_draw now (JObj d) sent) = (JObj response, 200) \<and>
     map_of response ''kiosk_id'' = Some (dict_get d ''kiosk_id'') \<and>
     map_of response ''user_id'' = Some (dict_get d ''user_id'') \<and>
     map_of response ''pin'' = Some (dict_get d ''pin'') \<and>
     map_of response ''volume_ml'' = Some (dict_get d ''volume_ml'') \<and>
     map_of response ''approved'' = Some (JBool approved) \<and>
     map_of response ''reason'' = Some (JStr reason) \<and>
     map_of response ''timestamp'' = Some (JStr now) \<and>
     map_of response ''type'' = Some (JStr ''dispense_response'') \<and>
     (map_of response ''user_data'' = None) = (reason \<noteq> ''Customer verified in database'')"
proof -
  from dispense_outcome[OF assms, of cfg be random_draw now sent]
  obtain approved reason user_data sent' where
    run: "dispense_verification cfg be random_draw now (JObj d) sent
       = ((JObj (envelope d now approved reason user_data), 200), sent')"
    and alt: "(\<exists>e. lookup_customer_by_phone cfg be (dict_get d ''user_id'') (dict_get d ''pin'') sent
             = (Inl e, sent')
           \<and> (approved, reason, user_data) = fallback random_draw)
      \<or> (lookup_customer_by_phone cfg be (dict_get d ''user_id'') (dict_get d ''pin'') sent
             = (Inr not_found_result, sent')
           \<and> (approved, reason, user_data) = (False, ''Customer not found in database'', JNull))
      \<or> (\<exists>customer.
            lookup_customer_by_phone cfg be (dict_get d ''user_id'') (dict_get d ''pin'') sent
             = (Inr (found_result customer (dict_get d ''pin'')), sent')
           \<and> decision (found_result customer (dict_get d ''pin''))
               = Inr (approved, reason, user_data))"
    by blast
  have data: "truthy user_data = (reason = ''Customer verified in database'')"
    using alt
  proof (elim disjE exE conjE)
    fix e assume "(approved, reason, user_data) = fallback random_draw"
    then show ?thesis using fallback_cases[of random_draw approved reason user_data] by simp
  next
    assume "(approved, reason, user_data) = (False, ''Customer not found in database'', JNull)"
    then show ?thesis by simp
  next
    fix customer
    assume "decision (found_result customer (dict_get d ''pin'')) = Inr (approved, reason, user_data)"
    from decision_found_cases[OF this] show ?thesis by (auto simp: redacted_def)
  qed
  have ud: "(map_of (envelope d now approved reason user_data) ''user_data'' = None)
        = (reason \<noteq> ''Customer verified in database'')"
    using data by (simp add: envelope_fields)
  show ?thesis
    apply (rule exI[of _ "envelope d now approved reason user_data"])
    apply (rule exI[of _ approved])
    apply (rule exI[of _ reason])
    apply (simp only: run fst_conv envelope_fields(1-8) ud)
    done
qed

text \<open>
  The example request against a backend that holds no customer.
\<close>

theorem decision_object_witness:
  "list_all truthy [dict_get example_request ''kiosk_id'', dict_get example_request ''user_id'',
                    dict_get example_request ''pin'']
   \<and> (\<exists>response.
        fst (dispense_verification example_config empty_backend (1 / 2) ''2025-01-01T00:00:00''
               (JObj example_request) []) = (JObj response, 200) \<and>
        map_of response ''kiosk_id'' = Some (JStr ''K1'') \<and>
        map_of response ''user_id'' = Some (JStr ''+254712345678'') \<and>
        map_of response ''pin'' = Some (JStr ''4455'') \<and>
        map_of response ''volume_ml'' = Some (JInt 500) \<and>
        map_of response ''timestamp'' = Some (JStr ''2025-01-01T00:00:00''))"
proof -
  have g: "dict_get example_request ''kiosk_id'' = JStr ''K1''"
    "dict_get example_request ''user_id'' = JStr ''+254712345678''"
    "dict_get example_request ''pin'' = JStr ''4455''"
    "dict_get example_request ''volume_ml'' = JInt 500"
    by (simp_all add: example_request_def dict_get_Cons)
  from decision_object[OF example_valid, of example_config empty_backend "1 / 2"
      "''2025-01-01T00:00:00''" "[]"] example_valid
  show ?thesis unfolding g by blast
qed

text \<open>
  C7 as stated fails on a request without \<open>pin\<close>: the answer is the three-field error
  object with status 400, which has no \<open>kiosk_id\<close> and no \<open>timestamp\<close> (nor \<open>user_id\<close>,
  \<open>pin\<close> and \<open>volume_ml\<close>).
\<close>

theorem decision_object_counterexample:
  "fst (dispense_verification example_config empty_backend (1 / 2) ''2025-01-01T00:00:00''
         (JObj [(''kiosk_id'', JStr ''K1''), (''user_id'', JStr ''+254712345678''),
                (''volume_ml'', JInt 500)]) [])
     = (JObj [(''error'', JStr ''Missing required fields: kiosk_id, user_id (phone_number), pin''),
              (''approved'', JBool False),
              (''reason'', JStr ''Invalid request format'')], 400)
   \<and> map_of [(''error'', JStr ''Missing required fields: kiosk_id, user_id (phone_number), pin''),
              (''approved'', JBool False),
              (''reason'', JStr ''Invalid request format'')] ''kiosk_id'' = None
   \<and> map_of [(''error'', JStr ''Missing required fields: kiosk_id, user_id (phone_number), pin''),
              (''approved'', JBool False),
              (''reason'', JStr ''Invalid request format'')] ''timestamp'' = None"
  by (simp add: dispense_verification_def dict_get_Cons Let_def)



text \<open>
  \<^bold>\<open>C9\<close>, amended. For an input without the substring \<open>+254\<close> the second, third and fourth
  candidates are the literal input, and an unmatched lookup has sent the request for the
  literal input four times before the request for the fifth candidate. The fifth
  candidate is the \<open>+254\<close>-prefixed variant when the input does not start with \<open>+\<close>; when
  it does, the fifth candidate is the literal input once more.
\<close>

theorem duplicate_variants:
  assumes "\<not> sublist ''+254'' p"
    and "lookup_customer_by_phone cfg be (JStr p) pin sent = (Inr not_found_result, sent')"
  shows "phone_variants p =
           [p, p, p, p, if startswith p ''+'' then p else ''+254'' @ lstrip ''0'' p]
       \<and> sent' = sent @ replicate 4 (customer_request cfg p)
                  @ [customer_request cfg
                       (if startswith p ''+'' then p else ''+254'' @ lstrip ''0'' p)]"
proof -
  have v: "phone_variants p =
           [p, p, p, p, if startswith p ''+'' then p else ''+254'' @ lstrip ''0'' p]"
    by (simp add: phone_variants_def replace_absent[OF assms(1)])
  from assms(2) have "lookup_loop cfg be pin (phone_variants p) sent = (Inr not_found_result, sent')"
    by (simp add: lookup_customer_by_phone_def)
  from loop_unmatched_sent[OF this]
  have "sent' = sent @ map (customer_request cfg)
     [p, p, p, p, if startswith p ''+'' then p else ''+254'' @ lstrip ''0'' p]"
    by (simp only: v)
  then have "sent' = sent @ replicate 4 (customer_request cfg p)
                  @ [customer_request cfg
                       (if startswith p ''+'' then p else ''+254'' @ lstrip ''0'' p)]"
    by (simp add: numeral_eq_Suc)
  with v show ?thesis by (rule conjI)
qed

text \<open>
  The local number \<open>0712345678\<close> against a backend that holds no customer.
\<close>

theorem duplicate_variants_witness:
  "\<not> sublist ''+254'' ''0712345678''
   \<and> lookup_customer_by_phone example_config empty_backend (JStr ''0712345678'') (JStr ''4455'') []
      = (Inr not_found_result,
         [] @ map (customer_request example_config) (phone_variants ''0712345678''))
   \<and> phone_variants ''0712345678''
      = [''0712345678'', ''0712345678'', ''0712345678'', ''0712345678'', ''+254712345678'']
   \<and> [] @ map (customer_request example_config) (phone_variants ''0712345678'')
      = replicate 4 (customer_request example_config ''0712345678'')
        @ [customer_request example_config ''+254712345678'']"
proof -
  have s: "\<not> startswith ''0712345678'' ''+''" "lstrip ''0'' ''0712345678'' = ''712345678''"
    by (simp_all add: startswith_def lstrip_def)
  from duplicate_variants[OF no_code_local
      empty_lookup[of example_config "''0712345678''" "JStr ''4455''" "[]"]]
    no_code_local empty_lookup[of example_config "''0712345678''" "JStr ''4455''" "[]"]
  show ?thesis by (simp add: s numeral_eq_Suc)
qed

text \<open>
  C9 as stated fails on \<open>+255712345678\<close>: the input does not contain \<open>+254\<close>, all five
  candidates are the literal input, no candidate begins with \<open>+254\<close>, and an unmatched
  lookup sends the same request five times.
\<close>

theorem duplicate_variants_counterexample:
  "\<not> sublist ''+254'' ''+255712345678''
   \<and> phone_variants ''+255712345678'' = replicate 5 ''+255712345678''
   \<and> \<not> prefix ''+254'' (phone_variants ''+255712345678'' ! 4)
   \<and> lookup_customer_by_phone example_config empty_backend (JStr ''+255712345678'')
        (JStr ''4455'') []
      = (Inr not_found_result, replicate 5 (customer_request example_config ''+255712345678''))"
proof -
  have v: "phone_variants ''+255712345678'' = replicate 5 ''+255712345678''"
    by (simp add: phone_variants_def replace_absent[OF no_code_foreign] startswith_def
        numeral_eq_Suc)
  have "\<not> prefix ''+254'' (phone_variants ''+255712345678'' ! 4)"
    by (simp add: v)
  moreover have "lookup_customer_by_phone example_config empty_backend (JStr ''+255712345678'')
        (JStr ''4455'') []
      = (Inr not_found_result, replicate 5 (customer_request example_config ''+255712345678''))"
    by (simp add: empty_lookup v)
  ultimately show ?thesis using no_code_foreign v by simp
qed

text \<open>
  \<^bold>\<open>C10.\<close> The required-field check tests truthiness. When \<open>kiosk_id\<close>, \<open>user_id\<close> or \<open>pin\<close>
  is present in the body with a falsy value (the empty string, 0, false, null, and also
  an empty list or object), the request is answered exactly as when the field is absent:
  status 400, \<open>approved\<close> false, reason \<open>Invalid request format\<close>, and no request is
  sent to the backend.
\<close>

theorem falsy_field_rejected:
  assumes "k \<in> {''kiosk_id'', ''user_id'', ''pin''}"
    and "map_of d k = Some v"
    and "\<not> truthy v"
  shows "dispense_verification cfg be random_draw now (JObj d) sent =
     ((JObj [(''error'', JStr ''Missing required fields: kiosk_id, user_id (phone_number), pin''),
             (''approved'', JBool False),
             (''reason'', JStr ''Invalid request format'')], 400), sent)"
proof -
  from assms(2) have ne: "d \<noteq> []" by auto
  from assms(2,3) have "\<not> truthy (dict_get d k)" by (simp add: dict_get_present)
  with assms(1)
  have "\<not> list_all truthy [dict_get d ''kiosk_id'', dict_get d ''user_id'', dict_get d ''pin'']"
    by auto
  with ne show ?thesis by (rule dispense_rejects)
qed

text \<open>
  A request whose \<open>pin\<close> is the number 0.
\<close>

theorem falsy_field_rejected_witness:
  "''pin'' \<in> {''kiosk_id'', ''user_id'', ''pin''}
   \<and> map_of [(''kiosk_id'', JStr ''K1''), (''user_id'', JStr ''+254712345678''), (''pin'', JInt 0)]
        ''pin'' = Some (JInt 0)
   \<and> \<not> truthy (JInt 0)
   \<and> dispense_verification example_config failing_backend (1 / 2) ''2025-01-01T00:00:00''
        (JObj [(''kiosk_id'', JStr ''K1''), (''user_id'', JStr ''+254712345678''), (''pin'', JInt 0)]) []
      = ((JObj [(''error'', JStr ''Missing required fields: kiosk_id, user_id (phone_number), pin''),
                (''approved'', JBool False),
                (''reason'', JStr ''Invalid request format'')], 400), [])"
proof -
  have h1: "''pin'' \<in> {''kiosk_id'', ''user_id'', ''pin''}" by simp
  have h2: "map_of [(''kiosk_id'', JStr ''K1''), (''user_id'', JStr ''+254712345678''), (''pin'', JInt 0)]
        ''pin'' = Some (JInt 0)" by simp
  have h3: "\<not> truthy (JInt 0)" by simp
  from falsy_field_rejected[OF h1 h2 h3, of example_config failing_backend "1 / 2"
      "''2025-01-01T00:00:00''" "[]"] h1 h2 h3
  show ?thesis by blast
qed

end
